theory Spec2Isabelle
  imports Complex_Main
begin

section \<open>JavaScript values used by the application\<close>

text \<open>
  A value of type \<open>string | null\<close> or \<open>string | undefined\<close> is a \<open>string option\<close>;
  \<open>None\<close> is the nullish value. Array indices are JavaScript numbers that can leave the
  range of the array (also below zero), so they are integers and every indexed read is
  written out: out of range it yields \<open>undefined\<close>.
\<close>

definition nth_opt :: "'a list \<Rightarrow> int \<Rightarrow> 'a option" where
  \<comment> \<open>\<open>xs[i]\<close>\<close>
  "nth_opt xs i = (if 0 \<le> i \<and> i < int (length xs) then Some (xs ! nat i) else None)"

definition slice0 :: "'a list \<Rightarrow> int \<Rightarrow> 'a list" where
  \<comment> \<open>\<open>xs.slice(0, e)\<close>: a negative end counts from the end of the array\<close>
  "slice0 xs e = (if e < 0 then take (nat (int (length xs) + e)) xs else take (nat e) xs)"

definition truthy :: "string option \<Rightarrow> bool" where
  \<comment> \<open>a string is truthy unless it is empty; \<open>null\<close> and \<open>undefined\<close> are falsy\<close>
  "truthy v = (case v of None \<Rightarrow> False | Some s \<Rightarrow> s \<noteq> [])"

definition nullish_or :: "'a option \<Rightarrow> 'a option \<Rightarrow> 'a option" where
  \<comment> \<open>\<open>a ?? b\<close>\<close>
  "nullish_or a b = (case a of None \<Rightarrow> b | Some x \<Rightarrow> Some x)"

definition startsWith :: "string \<Rightarrow> string \<Rightarrow> bool" where
  "startsWith s p = (take (length p) s = p)"

text \<open>
  A plain object used as a dictionary keeps its string keys in insertion order: assigning
  to a key that exists replaces the value in place, a new key goes to the end. A stored
  value can itself be \<open>undefined\<close>.
\<close>

type_synonym 'v jsobject = "(string \<times> 'v option) list"

fun get_prop :: "'v jsobject \<Rightarrow> string \<Rightarrow> 'v option" where
  \<comment> \<open>\<open>obj[k]\<close>\<close>
  "get_prop [] k = None"
| "get_prop ((k', v) # ps) k = (if k' = k then v else get_prop ps k)"

fun set_prop :: "'v jsobject \<Rightarrow> string \<Rightarrow> 'v option \<Rightarrow> 'v jsobject" where
  \<comment> \<open>\<open>obj[k] = v\<close>\<close>
  "set_prop [] k v = [(k, v)]"
| "set_prop ((k', v') # ps) k v = (if k' = k then (k, v) # ps else (k', v') # set_prop ps k v)"

definition first_value :: "'v jsobject \<Rightarrow> 'v option" where
  \<comment> \<open>\<open>Object.values(obj)[0]\<close>\<close>
  "first_value obj = (case obj of [] \<Rightarrow> None | (k, v) # ps \<Rightarrow> v)"

definition json_object :: "'v jsobject \<Rightarrow> (string \<times> 'v) list" where
  \<comment> \<open>what \<open>JSON.stringify\<close> prints of an object: properties holding \<open>undefined\<close> are left out\<close>
  "json_object obj = concat (map (\<lambda>(k, v). case v of None \<Rightarrow> [] | Some x \<Rightarrow> [(k, x)]) obj)"

datatype js_error = TypeError | Error string

section \<open>The undo/redo container \<open>useHistoryState\<close>\<close>

text \<open>
  The hook keeps two pieces of React state, \<open>history\<close> and \<open>currentIndex\<close>. Its callbacks
  are closures over the values of the render that created them.
\<close>

record 'a hist =
  history :: "'a list"
  currentIndex :: int

definition initial_hist :: "'a \<Rightarrow> 'a hist" where
  "initial_hist initialState = \<lparr>history = [initialState], currentIndex = 0\<rparr>"

definition state :: "'a hist \<Rightarrow> 'a option" where
  \<comment> \<open>\<open>history[currentIndex]\<close>, \<open>undefined\<close> when the index is no index of the array\<close>
  "state h = nth_opt (history h) (currentIndex h)"

definition undo :: "'a hist \<Rightarrow> 'a hist" where
  "undo h = (if currentIndex h > 0 then h\<lparr>currentIndex := currentIndex h - 1\<rparr> else h)"

definition redo :: "'a hist \<Rightarrow> 'a hist" where
  "redo h = (if currentIndex h < int (length (history h)) - 1
             then h\<lparr>currentIndex := currentIndex h - 1\<rparr> else h)"

definition reset :: "'a \<Rightarrow> 'a hist" where
  "reset newState = \<lparr>history = [newState], currentIndex = 0\<rparr>"

definition canUndo :: "'a hist \<Rightarrow> bool" where
  "canUndo h = (currentIndex h > 0)"

definition canRedo :: "'a hist \<Rightarrow> bool" where
  "canRedo h = (currentIndex h < int (length (history h)) - 1)"

text \<open>
  \<open>setState\<close> is a \<open>useCallback\<close> over \<open>history\<close>, \<open>currentIndex\<close> and \<open>state\<close>. It is not
  React's functional update: \<open>value(state)\<close> and \<open>history.slice(0, currentIndex + 1)\<close> read the
  variables of the render that created the callback, and \<open>setHistory(newHistory)\<close> and
  \<open>setCurrentIndex(newHistory.length - 1)\<close> replace the React state by values computed from
  them. So \<open>setState\<close> takes what its render captured (\<open>c\<close>) and the container it writes
  to (\<open>cur\<close>); the early return on equal \<open>JSON.stringify\<close> texts (\<open>jeq\<close>) leaves the
  container as it is. \<open>undo\<close> and \<open>redo\<close> are called from a click, when the captured index
  is the current one.
\<close>

record 'a captured =
  cHistory :: "'a list"
  cIndex :: int
  cState :: 'a

definition capture :: "'a hist \<Rightarrow> 'a captured option" where
  "capture h = (case state h of None \<Rightarrow> None
     | Some s \<Rightarrow> Some \<lparr>cHistory = history h, cIndex = currentIndex h, cState = s\<rparr>)"

definition setState :: "('a \<Rightarrow> 'a \<Rightarrow> bool) \<Rightarrow> 'a captured \<Rightarrow> ('a \<Rightarrow> 'a) \<Rightarrow> 'a hist \<Rightarrow> 'a hist" where
  "setState jeq c f cur =
     (let newState = f (cState c) in
      if jeq newState (cState c) then cur
      else let newHistory = slice0 (cHistory c) (cIndex c + 1) @ [newState]
           in \<lparr>history = newHistory, currentIndex = int (length newHistory) - 1\<rparr>)"

section \<open>The application state\<close>

datatype item_type = Garment | Accessory

record WardrobeItem =
  item_id :: string
  item_name :: string
  item_url :: string
  item_type :: item_type

text \<open>
  An \<open>OutfitLayer\<close> is an object that \<open>handlePoseSelect\<close> changes in place while
  several states of the history point to it, so layers live in a store and a state holds
  their addresses. A new object gets the next free address.
\<close>

record OutfitLayer =
  item :: "WardrobeItem option"
  poseImages :: "string jsobject"

type_synonym ref = nat

type_synonym store = "OutfitLayer list"

definition deref :: "store \<Rightarrow> ref \<Rightarrow> OutfitLayer option" where
  "deref hp r = nth_opt hp (int r)"

definition alloc :: "store \<Rightarrow> OutfitLayer \<Rightarrow> store \<times> ref" where
  "alloc hp l = (hp @ [l], length hp)"

fun alloc_all :: "store \<Rightarrow> OutfitLayer list \<Rightarrow> store \<times> ref list" where
  "alloc_all hp [] = (hp, [])"
| "alloc_all hp (l # ls) =
     (case alloc hp l of (hp1, r) \<Rightarrow> (case alloc_all hp1 ls of (hp2, rs) \<Rightarrow> (hp2, r # rs)))"

record AppState =
  modelImageUrl :: "string option"
  garmentHistory :: "ref list"
  currentGarmentIndex :: int
  activeAccessories :: "WardrobeItem list"
  generatedAccessoryImageUrl :: "string option"
  currentPoseIndex :: int

definition initialState :: AppState where
  "initialState = \<lparr>modelImageUrl = None, garmentHistory = [], currentGarmentIndex = 0,
     activeAccessories = [], generatedAccessoryImageUrl = None, currentPoseIndex = 0\<rparr>"

definition POSE_INSTRUCTIONS :: "string list" where
  "POSE_INSTRUCTIONS =
     [''Full frontal view, hands on hips'',
      ''Slightly turned, 3/4 view'',
      ''Side profile view'',
      ''Jumping in the air, mid-action shot'',
      ''Walking towards camera'',
      ''Leaning against a wall'']"

definition pose_key :: "int \<Rightarrow> string" where
  \<comment> \<open>\<open>POSE_INSTRUCTIONS[i]\<close> used as a property name or in a template: \<open>undefined\<close>
     becomes the text "undefined"\<close>
  "pose_key i = (case nth_opt POSE_INSTRUCTIONS i of None \<Rightarrow> ''undefined'' | Some s \<Rightarrow> s)"

text \<open>
  \<open>JSON.stringify\<close> of a state prints its fields in the order of the object's keys, which
  a spread keeps, so the texts of a state and of a state computed from it by a spread are
  equal exactly when the printed contents are: the layers are read through the store, and
  pose images holding \<open>undefined\<close> are not printed. (Every wardrobe item of the application
  is written with its keys in the order id, name, url, type.)
\<close>

definition json_layer :: "OutfitLayer \<Rightarrow> WardrobeItem option \<times> (string \<times> string) list" where
  "json_layer l = (item l, json_object (poseImages l))"

definition json_state ::
  "store \<Rightarrow> AppState \<Rightarrow>
   string option \<times> (WardrobeItem option \<times> (string \<times> string) list) option list \<times>
   int \<times> WardrobeItem list \<times> string option \<times> int" where
  "json_state hp s =
     (modelImageUrl s, map (\<lambda>r. map_option json_layer (deref hp r)) (garmentHistory s),
      currentGarmentIndex s, activeAccessories s, generatedAccessoryImageUrl s,
      currentPoseIndex s)"

definition json_eq :: "store \<Rightarrow> AppState \<Rightarrow> AppState \<Rightarrow> bool" where
  "json_eq hp a b = (json_state hp a = json_state hp b)"

record SavedLayer =
  saved_item :: "WardrobeItem option"
  imageUrl :: "string option"

record SavedOutfit =
  outfit_id :: string
  outfit_name :: string
  thumbnailUrl :: string
  outfit_modelImageUrl :: string
  outfit_garmentHistory :: "SavedLayer list"
  outfit_activeAccessories :: "WardrobeItem list"
  outfit_wardrobe :: "WardrobeItem list"

datatype jsfile = File string string

datatype api_call =
    TryOnCall "string option" jsfile
  | AccessoryCall string "jsfile list" "WardrobeItem list"
  | PoseCall string string

text \<open>
  The component's state: the undo/redo container with the store of its layers, the state
  kept outside the history, and the list of the calls of the generation functions made so
  far, in their order (kept to state which calls a handler makes).
\<close>

record World =
  heap :: store
  hist :: "AppState hist"
  isLoading :: bool
  loadingMessage :: string
  error :: "string option"
  wardrobe :: "WardrobeItem list"
  savedOutfits :: "SavedOutfit list"
  calls :: "api_call list"

text \<open>
  The image service and the helpers of \<open>lib/utils\<close> are parameters: a call either throws
  or returns its value.
\<close>

record env =
  tryOn :: "string \<Rightarrow> jsfile \<Rightarrow> js_error + string"
  accessoryTryOn :: "string \<Rightarrow> jsfile list \<Rightarrow> WardrobeItem list \<Rightarrow> js_error + string"
  poseVariation :: "string \<Rightarrow> string \<Rightarrow> js_error + string"
  urlToFile :: "string \<Rightarrow> string \<Rightarrow> js_error + jsfile"
  getFriendlyErrorMessage :: "js_error \<Rightarrow> string \<Rightarrow> string"

definition generateGarmentTryOnImage :: "env \<Rightarrow> string option \<Rightarrow> jsfile \<Rightarrow> js_error + string" where
  \<comment> \<open>\<open>dataUrlToParts\<close> calls \<open>split\<close> on the URL first, a TypeError on \<open>null\<close>\<close>
  "generateGarmentTryOnImage e u f = (case u of None \<Rightarrow> Inl TypeError | Some s \<Rightarrow> tryOn e s f)"

fun promise_all :: "('a \<Rightarrow> js_error + 'b) \<Rightarrow> 'a list \<Rightarrow> js_error + 'b list" where
  \<comment> \<open>\<open>Promise.all(xs.map(f))\<close>; of several rejections the first in the list is reported\<close>
  "promise_all f [] = Inr []"
| "promise_all f (x # xs) =
     (case f x of Inl e \<Rightarrow> Inl e
      | Inr y \<Rightarrow> (case promise_all f xs of Inl e \<Rightarrow> Inl e | Inr ys \<Rightarrow> Inr (y # ys)))"

definition layer_at :: "store \<Rightarrow> ref list \<Rightarrow> int \<Rightarrow> OutfitLayer option" where
  \<comment> \<open>\<open>garmentHistory[i]\<close>\<close>
  "layer_at hp gh i = (case nth_opt gh i of None \<Rightarrow> None | Some r \<Rightarrow> deref hp r)"

definition layers_of :: "store \<Rightarrow> ref list \<Rightarrow> OutfitLayer list" where
  \<comment> \<open>the objects an array of layers holds (an address of no object holds none)\<close>
  "layers_of hp rs = List.map_filter (deref hp) rs"

definition activeGarmentLayers :: "store \<Rightarrow> AppState \<Rightarrow> OutfitLayer list" where
  "activeGarmentLayers hp s =
     layers_of hp (slice0 (garmentHistory s) (currentGarmentIndex s + 1))"

definition activeItemIds :: "store \<Rightarrow> AppState \<Rightarrow> string list" where
  \<comment> \<open>\<open>layer.item!.id\<close> of the layers above the base, then the accessories' ids; a layer
     without an item names no id here (in the component it makes the render throw)\<close>
  "activeItemIds hp s =
     List.map_filter (\<lambda>layer. map_option item_id (item layer)) (drop 1 (activeGarmentLayers hp s))
     @ map item_id (activeAccessories s)"

definition displayImageUrl :: "store \<Rightarrow> AppState \<Rightarrow> string option" where
  "displayImageUrl hp s =
     (case layer_at hp (garmentHistory s) (currentGarmentIndex s) of
        None \<Rightarrow> modelImageUrl s
      | Some currentGarmentLayer \<Rightarrow>
          (let poseInstruction = pose_key (currentPoseIndex s);
               baseGarmentImageUrl =
                 nullish_or (get_prop (poseImages currentGarmentLayer) poseInstruction)
                   (first_value (poseImages currentGarmentLayer))
           in nullish_or (generatedAccessoryImageUrl s) baseGarmentImageUrl))"

definition finally_clear :: "World \<Rightarrow> World" where
  \<comment> \<open>the \<open>finally\<close> blocks: \<open>setIsLoading(false); setLoadingMessage('')\<close>\<close>
  "finally_clear w = w\<lparr>isLoading := False, loadingMessage := []\<rparr>"

section \<open>The handlers\<close>

text \<open>
  A handler runs with the closures of the render it was created in. Every handler is
  created anew when \<open>setState\<close> changes (it is a plain function of the component body, or a
  \<open>useCallback\<close> with \<open>setState\<close> among its dependencies), so at a click the captured
  \<open>history\<close>, \<open>currentIndex\<close> and \<open>state\<close> are the current ones (\<open>capture\<close>), and they stay
  the captured ones for all of the handler's run, across its \<open>await\<close>s and timers. The
  world is threaded through the handler's writes in the order in which they happen, up to
  the end of everything the handler started. With no current state the component's render
  throws on destructuring \<open>state\<close> and there is no handler to call: the world stays as it is.
\<close>

definition accessory_base :: "store \<Rightarrow> AppState \<Rightarrow> string option \<Rightarrow> string option" where
  \<comment> \<open>\<open>overrideBaseImageUrl ?? (currentGarmentLayer ? Object.values(currentGarmentLayer.poseImages)[0]
     : modelImageUrl)\<close>\<close>
  "accessory_base hp s overrideBaseImageUrl =
     (let currentGarmentLayer = layer_at hp (garmentHistory s) (currentGarmentIndex s)
      in nullish_or overrideBaseImageUrl
           (case currentGarmentLayer of
              Some l \<Rightarrow> first_value (poseImages l)
            | None \<Rightarrow> modelImageUrl s))"

definition updateAccessoryLayer ::
  "env \<Rightarrow> AppState captured \<Rightarrow> WardrobeItem list \<Rightarrow> string option \<Rightarrow> World \<Rightarrow> World" where
  "updateAccessoryLayer e c accessories overrideBaseImageUrl w =
     (let baseImageUrl = accessory_base (heap w) (cState c) overrideBaseImageUrl
      in case baseImageUrl of
           None \<Rightarrow> w
         | Some base \<Rightarrow>
             if base = [] then w
             else if accessories = [] then
               w\<lparr>hist := setState (json_eq (heap w)) c
                     (\<lambda>prev. prev\<lparr>generatedAccessoryImageUrl := None, activeAccessories := []\<rparr>)
                     (hist w)\<rparr>
             else
               (let w1 = w\<lparr>isLoading := True, loadingMessage := ''Styling accessories...'',
                            error := None\<rparr>
                in case promise_all (\<lambda>acc. urlToFile e (item_url acc) (item_name acc)) accessories of
                     Inl err \<Rightarrow>
                       finally_clear
                         (w1\<lparr>error := Some (getFriendlyErrorMessage e err ''Failed to apply accessories'')\<rparr>)
                   | Inr accessoryFiles \<Rightarrow>
                       (let w2 = w1\<lparr>calls := calls w1 @ [AccessoryCall base accessoryFiles accessories]\<rparr>
                        in case accessoryTryOn e base accessoryFiles accessories of
                             Inl err \<Rightarrow>
                               finally_clear
                                 (w2\<lparr>error := Some (getFriendlyErrorMessage e err ''Failed to apply accessories'')\<rparr>)
                           | Inr newImageUrl \<Rightarrow>
                               finally_clear
                                 (w2\<lparr>hist := setState (json_eq (heap w2)) c
                                       (\<lambda>prev. prev\<lparr>generatedAccessoryImageUrl := Some newImageUrl,
                                                     activeAccessories := accessories\<rparr>)
                                       (hist w2)\<rparr>))))"

definition defaultWardrobe :: "WardrobeItem list" where
  "defaultWardrobe =
     [\<lparr>item_id = ''gemini-sweat'', item_name = ''Gemini Sweat'',
       item_url = ''https://cdn.jsdelivr.net/gh/ammaarreshi/app-images@main/gemini-sweat-2.png'',
       item_type = Garment\<rparr>,
      \<lparr>item_id = ''gemini-tee'', item_name = ''Gemini Tee'',
       item_url = ''https://cdn.jsdelivr.net/gh/ammaarreshi/app-images@main/Gemini-tee.png'',
       item_type = Garment\<rparr>,
      \<lparr>item_id = ''blazer-jacket'', item_name = ''Blazer Jacket'',
       item_url = ''https://cdn.jsdelivr.net/gh/ammaarreshi/app-images@main/blazer.png'',
       item_type = Garment\<rparr>,
      \<lparr>item_id = ''formal-suit'', item_name = ''Formal Suit'',
       item_url = ''https://i.ibb.co/51p1tRh/formal-suit.png'',
       item_type = Garment\<rparr>,
      \<lparr>item_id = ''beanie-hat'', item_name = ''Beanie Hat'',
       item_url = ''https://cdn.jsdelivr.net/gh/ammaarreshi/app-images@main/beanie.png'',
       item_type = Accessory\<rparr>,
      \<lparr>item_id = ''tote-bag'', item_name = ''Tote Bag'',
       item_url = ''https://cdn.jsdelivr.net/gh/ammaarreshi/app-images@main/tote.png'',
       item_type = Accessory\<rparr>,
      \<lparr>item_id = ''sunglasses'', item_name = ''Sunglasses'',
       item_url = ''https://cdn.jsdelivr.net/gh/ammaarreshi/app-images@main/sunnies.png'',
       item_type = Accessory\<rparr>]"

definition initial_world :: World where
  \<comment> \<open>the component's state at its first render\<close>
  "initial_world =
     \<lparr>heap = [], hist = initial_hist initialState, isLoading = False, loadingMessage = [],
      error = None, wardrobe = defaultWardrobe, savedOutfits = [], calls = []\<rparr>"

definition handleModelFinalized :: "string \<Rightarrow> World \<Rightarrow> World" where
  "handleModelFinalized u w =
     (case alloc (heap w) \<lparr>item = None, poseImages = [(pose_key 0, Some u)]\<rparr> of
        (hp, r) \<Rightarrow>
          w\<lparr>heap := hp,
             hist := reset (initialState\<lparr>modelImageUrl := Some u, garmentHistory := [r]\<rparr>)\<rparr>)"

definition is_next_layer :: "OutfitLayer option \<Rightarrow> WardrobeItem \<Rightarrow> bool" where
  \<comment> \<open>\<open>nextLayer && nextLayer.item?.id === itemInfo.id\<close>\<close>
  "is_next_layer nextLayer itemInfo =
     (case nextLayer of None \<Rightarrow> False
      | Some l \<Rightarrow> (case item l of None \<Rightarrow> False | Some it \<Rightarrow> item_id it = item_id itemInfo))"

definition select_base :: "store \<Rightarrow> AppState \<Rightarrow> string option" where
  \<comment> \<open>\<open>displayImageUrl?.startsWith('data:') ? displayImageUrl : modelImageUrl\<close>\<close>
  "select_base hp s =
     (let display = displayImageUrl hp s
      in if (case display of None \<Rightarrow> False | Some d \<Rightarrow> startsWith d ''data:'')
         then display else modelImageUrl s)"

definition handleItemSelect :: "env \<Rightarrow> jsfile \<Rightarrow> WardrobeItem \<Rightarrow> World \<Rightarrow> World" where
  "handleItemSelect e itemFile itemInfo w =
     (case capture (hist w) of
        None \<Rightarrow> w
      | Some c \<Rightarrow>
        (let s = cState c;
             baseGarmentImageUrl = select_base (heap w) s
         in if \<not> truthy baseGarmentImageUrl \<or> isLoading w then w
            else if item_type itemInfo = Garment then
              (if is_next_layer (layer_at (heap w) (garmentHistory s) (currentGarmentIndex s + 1)) itemInfo
               then
                 w\<lparr>hist := setState (json_eq (heap w)) c
                       (\<lambda>prev. prev\<lparr>currentGarmentIndex := currentGarmentIndex prev + 1,
                                     currentPoseIndex := 0, activeAccessories := [],
                                     generatedAccessoryImageUrl := None\<rparr>)
                       (hist w)\<rparr>
               else
                 (let w1 = w\<lparr>error := None, isLoading := True,
                              loadingMessage := ''Adding '' @ item_name itemInfo @ ''...'',
                              calls := calls w @ [TryOnCall baseGarmentImageUrl itemFile]\<rparr>
                  in case generateGarmentTryOnImage e baseGarmentImageUrl itemFile of
                       Inl err \<Rightarrow>
                         finally_clear
                           (w1\<lparr>error := Some (getFriendlyErrorMessage e err ''Failed to apply item'')\<rparr>)
                     | Inr newImageUrl \<Rightarrow>
                         (let currentPoseInstruction = pose_key (currentPoseIndex s);
                              newLayer = \<lparr>item = Some itemInfo,
                                          poseImages = [(currentPoseInstruction, Some newImageUrl)]\<rparr>
                          in case alloc (heap w1) newLayer of
                               (hp, r) \<Rightarrow>
                                 finally_clear
                                   (w1\<lparr>heap := hp,
                                       hist := setState (json_eq hp) c
                                         (\<lambda>prev. prev\<lparr>garmentHistory :=
                                                         slice0 (garmentHistory prev) (currentGarmentIndex prev + 1) @ [r],
                                                       currentGarmentIndex := currentGarmentIndex prev + 1,
                                                       activeAccessories := [],
                                                       generatedAccessoryImageUrl := None\<rparr>)
                                         (hist w1),
                                       wardrobe :=
                                         (if list_ex (\<lambda>i. item_id i = item_id itemInfo) (wardrobe w1)
                                          then wardrobe w1 else wardrobe w1 @ [itemInfo])\<rparr>))))
            else
              (let isAlreadyActive = list_ex (\<lambda>acc. item_id acc = item_id itemInfo) (activeAccessories s);
                   newAccessories =
                     (if isAlreadyActive
                      then filter (\<lambda>acc. item_id acc \<noteq> item_id itemInfo) (activeAccessories s)
                      else activeAccessories s @ [itemInfo])
               in updateAccessoryLayer e c newAccessories None w)))"

definition handleRemoveLastGarment :: "World \<Rightarrow> World" where
  "handleRemoveLastGarment w =
     (case capture (hist w) of
        None \<Rightarrow> w
      | Some c \<Rightarrow>
          if currentGarmentIndex (cState c) > 0 then
            w\<lparr>hist := setState (json_eq (heap w)) c
                  (\<lambda>prev. prev\<lparr>currentGarmentIndex := currentGarmentIndex prev - 1,
                                currentPoseIndex := 0, activeAccessories := [],
                                generatedAccessoryImageUrl := None\<rparr>)
                  (hist w)\<rparr>
          else w)"

definition handlePoseSelect :: "env \<Rightarrow> int \<Rightarrow> World \<Rightarrow> World" where
  "handlePoseSelect e newIndex w =
     (case capture (hist w) of
        None \<Rightarrow> w
      | Some c \<Rightarrow>
        (let s = cState c
         in if isLoading w \<or> garmentHistory s = [] \<or> newIndex = currentPoseIndex s then w
            else
              (let poseInstruction = pose_key newIndex
               in case nth_opt (garmentHistory s) (currentGarmentIndex s) of
                    None \<Rightarrow> w
                  | Some r \<Rightarrow>
                    (case deref (heap w) r of
                       None \<Rightarrow> w
                     | Some currentLayer \<Rightarrow>
                         if truthy (get_prop (poseImages currentLayer) poseInstruction) then
                           (let w1 = w\<lparr>hist := setState (json_eq (heap w)) c
                                          (\<lambda>prev. prev\<lparr>currentPoseIndex := newIndex\<rparr>) (hist w)\<rparr>
                            in if activeAccessories s \<noteq> []
                               then updateAccessoryLayer e c (activeAccessories s)
                                      (get_prop (poseImages currentLayer) poseInstruction) w1
                               else w1)
                         else
                           (case first_value (poseImages currentLayer) of
                              None \<Rightarrow> w
                            | Some baseImageForPoseChange \<Rightarrow>
                                if baseImageForPoseChange = [] then w
                                else
                                  (let w1 = w\<lparr>error := None, isLoading := True,
                                               loadingMessage := ''Changing pose...'',
                                               calls := calls w @ [PoseCall baseImageForPoseChange poseInstruction]\<rparr>
                                   in case poseVariation e baseImageForPoseChange poseInstruction of
                                        Inl err \<Rightarrow>
                                          finally_clear
                                            (w1\<lparr>error := Some (getFriendlyErrorMessage e err ''Failed to change pose'')\<rparr>)
                                      | Inr newImageUrl \<Rightarrow>
                                          (let hp = (heap w1)
                                                 [r := currentLayer\<lparr>poseImages :=
                                                    set_prop (poseImages currentLayer) poseInstruction (Some newImageUrl)\<rparr>];
                                               w2 = w1\<lparr>heap := hp,
                                                       hist := setState (json_eq hp) c
                                                         (\<lambda>prev. prev\<lparr>garmentHistory := garmentHistory s,
                                                                       currentPoseIndex := newIndex\<rparr>)
                                                         (hist w1)\<rparr>;
                                               w3 = (if activeAccessories s \<noteq> []
                                                     then updateAccessoryLayer e c (activeAccessories s)
                                                            (Some newImageUrl) w2
                                                     else w2)
                                           in finally_clear w3)))))))"

text \<open>
  \<open>handlePoseSelect\<close> reads \<open>currentLayer.poseImages\<close> before its \<open>try\<close>: with no current
  layer the TypeError rejects the handler's promise before any write. The same holds for
  \<open>l.item\<close> of a missing base layer in \<open>handleReorderGarments\<close>.
\<close>

definition handleSaveOutfit :: "string \<Rightarrow> string \<Rightarrow> World \<Rightarrow> World" where
  \<comment> \<open>\<open>stamp\<close> is the text of \<open>Date.now()\<close>, \<open>localeString\<close> that of
     \<open>new Date().toLocaleString()\<close>; the refusal's message is cleared by a timer later\<close>
  "handleSaveOutfit stamp localeString w =
     (case capture (hist w) of
        None \<Rightarrow> w
      | Some c \<Rightarrow>
        (let s = cState c;
             refused = w\<lparr>error := Some ''Add at least one item to save an outfit.''\<rparr>
         in case modelImageUrl s of
              None \<Rightarrow> refused
            | Some model \<Rightarrow>
              (case displayImageUrl (heap w) s of
                 None \<Rightarrow> refused
               | Some display \<Rightarrow>
                   if model = [] \<or> display = []
                      \<or> (currentGarmentIndex s = 0 \<and> activeAccessories s = [])
                   then refused
                   else
                     (let historyToSave =
                            map (\<lambda>layer. \<lparr>saved_item = item layer,
                                           imageUrl = first_value (poseImages layer)\<rparr>)
                              (activeGarmentLayers (heap w) s);
                          newSavedOutfit =
                            \<lparr>outfit_id = ''outfit-'' @ stamp,
                             outfit_name = ''Outfit - '' @ localeString,
                             thumbnailUrl = display,
                             outfit_modelImageUrl = model,
                             outfit_garmentHistory = historyToSave,
                             outfit_activeAccessories = activeAccessories s,
                             outfit_wardrobe = wardrobe w\<rparr>
                      in w\<lparr>savedOutfits := newSavedOutfit # savedOutfits w\<rparr>))))"

definition handleLoadOutfit :: "env \<Rightarrow> string \<Rightarrow> World \<Rightarrow> World" where
  "handleLoadOutfit e outfitId w =
     (case capture (hist w) of
        None \<Rightarrow> w
      | Some c \<Rightarrow>
        if isLoading w then w
        else
          (case find (\<lambda>saved. outfit_id saved = outfitId) (savedOutfits w) of
             None \<Rightarrow> w
           | Some outfitToLoad \<Rightarrow>
             (let w1 = w\<lparr>error := None, isLoading := True, loadingMessage := ''Loading outfit...''\<rparr>;
                  layers =
                    map (\<lambda>storedLayer. \<lparr>item = saved_item storedLayer,
                                         poseImages = [(pose_key 0, imageUrl storedLayer)]\<rparr>)
                      (outfit_garmentHistory outfitToLoad)
              in case alloc_all (heap w1) layers of
                   (hp, reconstructedHistory) \<Rightarrow>
                     (let w2 = w1\<lparr>heap := hp,
                                  hist := reset
                                    \<lparr>modelImageUrl = Some (outfit_modelImageUrl outfitToLoad),
                                     garmentHistory = reconstructedHistory,
                                     currentGarmentIndex = int (length reconstructedHistory) - 1,
                                     activeAccessories = outfit_activeAccessories outfitToLoad,
                                     generatedAccessoryImageUrl = None,
                                     currentPoseIndex = 0\<rparr>,
                                  wardrobe := outfit_wardrobe outfitToLoad\<rparr>
                      in if outfit_activeAccessories outfitToLoad \<noteq> [] then
                           (if layers = [] then w2
                            else finally_clear
                                   (updateAccessoryLayer e c (outfit_activeAccessories outfitToLoad)
                                      (first_value (poseImages (last layers))) w2))
                         else
                           finally_clear
                             (w2\<lparr>hist := setState (json_eq hp) c
                                   (\<lambda>prev. prev\<lparr>generatedAccessoryImageUrl := None\<rparr>) (hist w2)\<rparr>)))))"

text \<open>
  In \<open>handleLoadOutfit\<close> the body runs in a timer 200 ms after the click, with the closures
  of the click's render. With accessories and no saved layer, reading \<open>poseImages\<close> of the
  missing last layer throws in the timer, after \<open>reset\<close> and \<open>setWardrobe\<close>, and the
  loading flag stays set. \<open>updateAccessoryLayer\<close> is not awaited there: its writes after the
  first \<open>await\<close> come last, and they set the loading flag and message to the values the
  timer's last two statements set, so the order does not show in the result.
\<close>

definition layer_id :: "OutfitLayer \<Rightarrow> string option" where
  \<comment> \<open>\<open>l.item?.id\<close>\<close>
  "layer_id l = map_option item_id (item l)"

fun regenerate ::
  "env \<Rightarrow> string option \<Rightarrow> OutfitLayer list \<Rightarrow> api_call list \<Rightarrow>
   (js_error + OutfitLayer list \<times> string option) \<times> api_call list" where
  \<comment> \<open>the loop of \<open>handleReorderGarments\<close> over the layers to apply: the new layers and
     the last image, or the first error thrown; the calls made are added to the list\<close>
  "regenerate e currentImage [] cs = (Inr ([], currentImage), cs)"
| "regenerate e currentImage (layerToApply # rest) cs =
     (case item layerToApply of
        None \<Rightarrow> (Inl TypeError, cs)
      | Some itemInfo \<Rightarrow>
        (case urlToFile e (item_url itemInfo) (item_name itemInfo) of
           Inl err \<Rightarrow> (Inl err, cs)
         | Inr itemFile \<Rightarrow>
           (case generateGarmentTryOnImage e currentImage itemFile of
              Inl err \<Rightarrow> (Inl err, cs @ [TryOnCall currentImage itemFile])
            | Inr newImageUrl \<Rightarrow>
              (case regenerate e (Some newImageUrl) rest (cs @ [TryOnCall currentImage itemFile]) of
                 (Inl err, cs') \<Rightarrow> (Inl err, cs')
               | (Inr (ls, final), cs') \<Rightarrow>
                   (Inr (\<lparr>item = Some itemInfo, poseImages = [(pose_key 0, Some newImageUrl)]\<rparr> # ls,
                         final), cs')))))"

definition handleReorderGarments :: "env \<Rightarrow> OutfitLayer list \<Rightarrow> World \<Rightarrow> World" where
  "handleReorderGarments e reorderedItems w =
     (case capture (hist w) of
        None \<Rightarrow> w
      | Some c \<Rightarrow>
        (let s = cState c
         in case nth_opt (garmentHistory s) 0 of
              None \<Rightarrow> w
            | Some r0 \<Rightarrow>
              (case deref (heap w) r0 of
                 None \<Rightarrow> w
               | Some base \<Rightarrow>
                   if map layer_id (base # reorderedItems)
                        = map layer_id (layers_of (heap w) (garmentHistory s))
                   then w
                   else
                     (let w1 = w\<lparr>error := None, isLoading := True,
                                  loadingMessage := ''Re-styling your outfit...''\<rparr>
                      in case regenerate e (modelImageUrl s) reorderedItems (calls w1) of
                           (Inl err, cs) \<Rightarrow>
                             finally_clear
                               (w1\<lparr>calls := cs,
                                   error := Some (getFriendlyErrorMessage e err
                                     ''Failed to reorder outfit. Reverting to previous order.'')\<rparr>)
                         | (Inr (newLayers, finalGarmentImage), cs) \<Rightarrow>
                             (case alloc_all (heap w1) newLayers of
                                (hp, rs) \<Rightarrow>
                                  (let regeneratedLayers = r0 # rs;
                                       w2 = w1\<lparr>heap := hp, calls := cs,
                                               hist := setState (json_eq hp) c
                                                 (\<lambda>prev. prev\<lparr>garmentHistory := regeneratedLayers,
                                                               currentGarmentIndex := int (length regeneratedLayers) - 1,
                                                               currentPoseIndex := 0\<rparr>)
                                                 (hist w1)\<rparr>;
                                       w3 = (if activeAccessories s \<noteq> []
                                             then updateAccessoryLayer e c (activeAccessories s)
                                                    finalGarmentImage w2
                                             else w2)
                                   in finally_clear w3))))))"

text \<open>
  The layers of the reordering are read for their \<open>item\<close> only, which nothing changes, so
  they are passed by value. The objects built in the loop enter the store when
  \<open>setState\<close> makes them reachable.
\<close>

subsection \<open>The wardrobe panel\<close>

definition handleItemClick ::
  "env \<Rightarrow> (jsfile \<Rightarrow> WardrobeItem \<Rightarrow> 'w \<Rightarrow> 'w) \<Rightarrow> string list \<Rightarrow> bool \<Rightarrow> WardrobeItem \<Rightarrow>
   string option \<times> 'w \<Rightarrow> string option \<times> 'w" where
  \<comment> \<open>the panel's own \<open>error\<close> state, paired with the state \<open>onItemSelect\<close> works on\<close>
  "handleItemClick e onItemSelect activeIds loading it pw =
     (if loading then pw
      else if item_type it = Garment \<and> item_id it \<in> set activeIds then pw
      else (case urlToFile e (item_url it) (item_name it) of
              Inl err \<Rightarrow>
                (Some ''Failed to load wardrobe item. This is often a CORS issue. Check the developer console for details.'',
                 snd pw)
            | Inr f \<Rightarrow> (None, onItemSelect f it (snd pw))))"

definition wardrobe_click :: "env \<Rightarrow> WardrobeItem \<Rightarrow> string option \<times> World \<Rightarrow> string option \<times> World" where
  \<comment> \<open>the panel as the component mounts it: \<open>onItemSelect={handleItemSelect}\<close>,
     \<open>activeItemIds={activeItemIds}\<close>, \<open>isLoading={isLoading}\<close>\<close>
  "wardrobe_click e it pw =
     (case capture (hist (snd pw)) of
        None \<Rightarrow> pw
      | Some c \<Rightarrow>
          handleItemClick e (handleItemSelect e) (activeItemIds (heap (snd pw)) (cState c))
            (isLoading (snd pw)) it pw)"

section \<open>The image service\<close>

record InlineData =
  mimeType :: "string option"
  inline_data :: "string option"

record Part =
  inlineData :: "InlineData option"

record Content =
  parts :: "Part list option"

record Candidate =
  content :: "Content option"
  finishReason :: "string option"

record PromptFeedback =
  blockReason :: "string option"
  blockReasonMessage :: "string option"

record GenerateContentResponse =
  promptFeedback :: "PromptFeedback option"
  candidates :: "Candidate list option"
  response_text :: "string option"

definition template :: "string option \<Rightarrow> string" where
  \<comment> \<open>a value inside a template literal\<close>
  "template v = (case v of None \<Rightarrow> ''undefined'' | Some s \<Rightarrow> s)"

definition imagePart :: "Candidate \<Rightarrow> InlineData option" where
  \<comment> \<open>\<open>candidate.content?.parts?.find(part => part.inlineData)?.inlineData\<close>\<close>
  "imagePart candidate =
     (case content candidate of
        None \<Rightarrow> None
      | Some c \<Rightarrow>
        (case parts c of
           None \<Rightarrow> None
         | Some ps \<Rightarrow>
           (case find (\<lambda>part. inlineData part \<noteq> None) ps of
              None \<Rightarrow> None
            | Some part \<Rightarrow> inlineData part)))"

fun first_image :: "Candidate list \<Rightarrow> InlineData option" where
  \<comment> \<open>the loop over the candidates, left at the first image part\<close>
  "first_image [] = None"
| "first_image (candidate # rest) =
     (case imagePart candidate of Some d \<Rightarrow> Some d | None \<Rightarrow> first_image rest)"

definition block_reason :: "GenerateContentResponse \<Rightarrow> string option" where
  \<comment> \<open>\<open>response.promptFeedback?.blockReason\<close>\<close>
  "block_reason response =
     (case promptFeedback response of None \<Rightarrow> None | Some pf \<Rightarrow> blockReason pf)"

definition response_candidates :: "GenerateContentResponse \<Rightarrow> Candidate list" where
  \<comment> \<open>\<open>response.candidates ?? []\<close>\<close>
  "response_candidates response = (case candidates response of None \<Rightarrow> [] | Some cs \<Rightarrow> cs)"

definition candidate_parts :: "Candidate \<Rightarrow> Part list" where
  \<comment> \<open>the parts a candidate carries, none when it has no content or its content no parts\<close>
  "candidate_parts candidate =
     (case content candidate of
        None \<Rightarrow> []
      | Some c \<Rightarrow> (case parts c of None \<Rightarrow> [] | Some ps \<Rightarrow> ps))"

definition data_url :: "InlineData \<Rightarrow> string" where
  "data_url d = ''data:'' @ template (mimeType d) @ '';base64,'' @ template (inline_data d)"

definition finish_message :: "string option \<Rightarrow> string" where
  "finish_message finish =
     ''Image generation stopped unexpectedly. Reason: '' @ template finish
     @ ''. This often relates to safety settings.''"

definition no_image_message :: "string option \<Rightarrow> string" where
  "no_image_message textFeedback =
     ''The AI model did not return an image. ''
     @ (if truthy textFeedback
        then ''The model responded with text: '' @ [CHR 0x22] @ template textFeedback @ [CHR 0x22]
        else ''This can happen due to safety filters or if the request is too complex. Please try a different image.'')"

definition handleApiResponse :: "(string \<Rightarrow> string) \<Rightarrow> GenerateContentResponse \<Rightarrow> js_error + string" where
  \<comment> \<open>\<open>trim\<close> is \<open>String.prototype.trim\<close>; \<open>Inl\<close> is the thrown error\<close>
  "handleApiResponse trim response =
     (if truthy (block_reason response) then
        Inl (Error (''Request was blocked. Reason: '' @ template (block_reason response) @ ''. ''
               @ (case promptFeedback response of
                    None \<Rightarrow> []
                  | Some pf \<Rightarrow> if truthy (blockReasonMessage pf)
                              then template (blockReasonMessage pf) else [])))
      else
        (case first_image (response_candidates response) of
           Some d \<Rightarrow> Inr (data_url d)
         | None \<Rightarrow>
           (let finish = (case candidates response of
                            None \<Rightarrow> None
                          | Some cs \<Rightarrow> (case nth_opt cs 0 of None \<Rightarrow> None | Some cand \<Rightarrow> finishReason cand))
            in if truthy finish \<and> finish \<noteq> Some ''STOP'' then Inl (Error (finish_message finish))
               else Inl (Error (no_image_message (map_option trim (response_text response)))))))"

subsection \<open>The style score\<close>

text \<open>
  The value \<open>JSON.parse\<close> returns. A JSON number is a double that is never NaN; a literal
  too large for a double parses to an infinity. \<open>Math.min\<close> and \<open>Math.max\<close> pick one of
  their arguments, so the finite numbers are modelled by the reals they denote.
\<close>

datatype jnumber = Finite real | PosInfinity | NegInfinity

datatype json =
    JNull
  | JBool bool
  | JNumber jnumber
  | JString string
  | JArray "json list"
  | JObject "(string \<times> json) list"

fun jnumber_le :: "jnumber \<Rightarrow> jnumber \<Rightarrow> bool" where
  "jnumber_le NegInfinity b = True"
| "jnumber_le a PosInfinity = True"
| "jnumber_le (Finite x) (Finite y) = (x \<le> y)"
| "jnumber_le a b = False"

definition math_min :: "jnumber \<Rightarrow> jnumber \<Rightarrow> jnumber" where
  "math_min a b = (if jnumber_le a b then a else b)"

definition math_max :: "jnumber \<Rightarrow> jnumber \<Rightarrow> jnumber" where
  "math_max a b = (if jnumber_le a b then b else a)"

record StyleScore =
  score :: jnumber
  critique :: string

definition type_text :: "item_type \<Rightarrow> string" where
  "type_text t = (case t of Garment \<Rightarrow> ''garment'' | Accessory \<Rightarrow> ''accessory'')"

fun join :: "string \<Rightarrow> string list \<Rightarrow> string" where
  \<comment> \<open>\<open>xs.join(sep)\<close>\<close>
  "join sep [] = []"
| "join sep [x] = x"
| "join sep (x # y # ys) = x @ sep @ join sep (y # ys)"

definition style_prompt :: "WardrobeItem list \<Rightarrow> string" where
  "style_prompt items =
     (let nl = [CHR 0x0A];
          outfitDescription =
            join nl (map (\<lambda>it. ''- '' @ item_name it @ '' ('' @ type_text (item_type it) @ '')'') items)
      in ''You are a world-class fashion stylist AI. Analyze the following outfit combination and provide a style score.''
         @ nl @ nl @ ''Outfit Items:'' @ nl @ outfitDescription @ nl @ nl
         @ ''Based on the combination, provide:'' @ nl
         @ ''1.  A score from 1 to 10, where 1 is a fashion disaster and 10 is runway-ready.'' @ nl
         @ ''2.  A brief, constructive critique or compliment (1-2 sentences max) explaining your score. Consider color harmony, item complementarity, and overall style.''
         @ nl @ nl @ ''Return ONLY a JSON object with your analysis.'')"

definition format_error :: js_error where
  "format_error = Error ''The AI returned an unexpected format for the style score. Please try again.''"

definition read_score :: "json \<Rightarrow> js_error + StyleScore" where
  \<comment> \<open>the \<open>try\<close> block after \<open>JSON.parse\<close>: whatever is thrown there is caught and
     thrown again as the format error\<close>
  "read_score result =
     (case result of
        JObject props \<Rightarrow>
          (case map_of props ''score'' of
             Some (JNumber n) \<Rightarrow>
               (case map_of props ''critique'' of
                  Some (JString c) \<Rightarrow>
                    Inr \<lparr>score = math_max (Finite 1) (math_min (Finite 10) n), critique = c\<rparr>
                | _ \<Rightarrow> Inl format_error)
           | _ \<Rightarrow> Inl format_error)
      | _ \<Rightarrow> Inl format_error)"

definition generateStyleScore ::
  "(string \<Rightarrow> js_error + string option) \<Rightarrow> (string \<Rightarrow> string) \<Rightarrow> (string \<Rightarrow> json option) \<Rightarrow>
   WardrobeItem list \<Rightarrow> string list \<times> (js_error + StyleScore)" where
  \<comment> \<open>\<open>generateContent\<close> is the model call on a prompt, giving \<open>response.text\<close> or throwing;
     \<open>JSON_parse\<close> gives \<open>None\<close> for a SyntaxError and lists an object's properties once
     each. The result is paired with the prompts sent to the model.\<close>
  "generateStyleScore generateContent trim JSON_parse items =
     (if items = [] then
        ([], Inr \<lparr>score = Finite 0, critique = ''Add some items to get a style score!''\<rparr>)
      else
        (let prompt = style_prompt items
         in case generateContent prompt of
              Inl err \<Rightarrow> ([prompt], Inl err)
            | Inr txt \<Rightarrow>
                ([prompt],
                 case txt of
                   None \<Rightarrow> Inl format_error
                 | Some t \<Rightarrow>
                   (case JSON_parse (trim t) of
                      None \<Rightarrow> Inl format_error
                    | Some result \<Rightarrow> read_score result))))"

section \<open>Properties of a handler's run\<close>

definition error_displayed_only :: "World \<Rightarrow> World \<Rightarrow> string \<Rightarrow> bool" where
  \<comment> \<open>from \<open>w\<close> to \<open>w'\<close> nothing has changed but the error message, now \<open>msg\<close>, and the
     loading flag and message, now cleared\<close>
  "error_displayed_only w w' msg =
     (hist w' = hist w \<and> heap w' = heap w \<and> error w' = Some msg
      \<and> isLoading w' = False \<and> loadingMessage w' = []
      \<and> wardrobe w' = wardrobe w \<and> savedOutfits w' = savedOutfits w)"

definition pushed :: "'a hist \<Rightarrow> 'a \<Rightarrow> 'a hist" where
  \<comment> \<open>the container after a new state has been pushed behind the current one\<close>
  "pushed h x =
     \<lparr>history = take (nat (currentIndex h) + 1) (history h) @ [x],
      currentIndex = currentIndex h + 1\<rparr>"

section \<open>Example inputs\<close>

definition tee :: WardrobeItem where
  "tee = \<lparr>item_id = ''gemini-tee'', item_name = ''Gemini Tee'',
           item_url = ''https://cdn.jsdelivr.net/gh/ammaarreshi/app-images@main/Gemini-tee.png'',
           item_type = Garment\<rparr>"

definition blazer :: WardrobeItem where
  "blazer = \<lparr>item_id = ''blazer-jacket'', item_name = ''Blazer Jacket'',
              item_url = ''https://cdn.jsdelivr.net/gh/ammaarreshi/app-images@main/blazer.png'',
              item_type = Garment\<rparr>"

definition hat :: WardrobeItem where
  "hat = \<lparr>item_id = ''beanie-hat'', item_name = ''Beanie Hat'',
           item_url = ''https://cdn.jsdelivr.net/gh/ammaarreshi/app-images@main/beanie.png'',
           item_type = Accessory\<rparr>"

definition bag :: WardrobeItem where
  "bag = \<lparr>item_id = ''tote-bag'', item_name = ''Tote Bag'',
           item_url = ''https://cdn.jsdelivr.net/gh/ammaarreshi/app-images@main/tote.png'',
           item_type = Accessory\<rparr>"

definition friendly :: "js_error \<Rightarrow> string \<Rightarrow> string" where
  "friendly err context =
     context @ '': '' @ (case err of TypeError \<Rightarrow> ''TypeError'' | Error m \<Rightarrow> m)"

definition ok_env :: env where
  \<comment> \<open>a service that answers every call; the image it returns names what went into it\<close>
  "ok_env =
     \<lparr>tryOn = (\<lambda>u f. case f of File n d \<Rightarrow> Inr (u @ ''+'' @ n)),
      accessoryTryOn = (\<lambda>u fs accs. Inr (u @ ''+acc'')),
      poseVariation = (\<lambda>u p. Inr (u @ ''+pose'')),
      urlToFile = (\<lambda>u n. Inr (File n u)),
      getFriendlyErrorMessage = friendly\<rparr>"

definition failing_env :: env where
  \<comment> \<open>a service that rejects every generation call\<close>
  "failing_env =
     \<lparr>tryOn = (\<lambda>u f. Inl (Error ''quota'')),
      accessoryTryOn = (\<lambda>u fs accs. Inl (Error ''quota'')),
      poseVariation = (\<lambda>u p. Inl (Error ''quota'')),
      urlToFile = (\<lambda>u n. Inr (File n u)),
      getFriendlyErrorMessage = friendly\<rparr>"

definition tee_file :: jsfile where
  "tee_file = File ''tee'' ''x''"

definition blazer_file :: jsfile where
  "blazer_file = File ''blazer'' ''y''"

definition hat_file :: jsfile where
  "hat_file = File ''hat'' ''z''"

definition base_layer :: OutfitLayer where
  "base_layer = \<lparr>item = None, poseImages = [(pose_key 0, Some ''data:model'')]\<rparr>"

definition tee_layer :: OutfitLayer where
  "tee_layer = \<lparr>item = Some tee, poseImages = [(pose_key 0, Some ''data:model+tee'')]\<rparr>"

definition blazer_layer :: OutfitLayer where
  "blazer_layer = \<lparr>item = Some blazer, poseImages = [(pose_key 0, Some ''data:model+tee+blazer'')]\<rparr>"

definition model_state :: AppState where
  "model_state =
     \<lparr>modelImageUrl = Some ''data:model'', garmentHistory = [0], currentGarmentIndex = 0,
      activeAccessories = [], generatedAccessoryImageUrl = None, currentPoseIndex = 0\<rparr>"

definition tee_state :: AppState where
  "tee_state = model_state\<lparr>garmentHistory := [0, 1], currentGarmentIndex := 1\<rparr>"

definition removed_state :: AppState where
  "removed_state = model_state\<lparr>garmentHistory := [0, 1], currentGarmentIndex := 0\<rparr>"

definition hat_state :: AppState where
  "hat_state = tee_state\<lparr>activeAccessories := [hat],
                          generatedAccessoryImageUrl := Some ''data:model+tee+acc''\<rparr>"

definition two_state :: AppState where
  "two_state = model_state\<lparr>garmentHistory := [0, 1, 2], currentGarmentIndex := 2\<rparr>"

definition two_hat_state :: AppState where
  "two_hat_state = two_state\<lparr>activeAccessories := [hat],
                              generatedAccessoryImageUrl := Some ''data:model+tee+blazer+acc''\<rparr>"

definition world_model :: World where
  \<comment> \<open>the model image has been finalised\<close>
  "world_model =
     \<lparr>heap = [base_layer], hist = \<lparr>history = [model_state], currentIndex = 0\<rparr>,
      isLoading = False, loadingMessage = [], error = None, wardrobe = defaultWardrobe,
      savedOutfits = [], calls = []\<rparr>"

definition world_tee :: World where
  \<comment> \<open>then the tee has been put on\<close>
  "world_tee =
     world_model\<lparr>heap := [base_layer, tee_layer],
                 hist := \<lparr>history = [model_state, tee_state], currentIndex = 1\<rparr>,
                 calls := [TryOnCall (Some ''data:model'') tee_file]\<rparr>"

definition world_removed :: World where
  \<comment> \<open>then the tee has been removed again: its layer stays in the garment history\<close>
  "world_removed =
     world_tee\<lparr>hist := \<lparr>history = [model_state, tee_state, removed_state], currentIndex = 2\<rparr>\<rparr>"

definition world_hat :: World where
  \<comment> \<open>the tee is on and the hat has been added\<close>
  "world_hat =
     world_tee\<lparr>hist := \<lparr>history = [model_state, tee_state, hat_state], currentIndex = 2\<rparr>,
               calls := [TryOnCall (Some ''data:model'') tee_file,
                         AccessoryCall ''data:model+tee'' [File (item_name hat) (item_url hat)] [hat]]\<rparr>"

definition world_two :: World where
  \<comment> \<open>the tee and the blazer are on\<close>
  "world_two =
     world_model\<lparr>heap := [base_layer, tee_layer, blazer_layer],
                 hist := \<lparr>history = [model_state, tee_state, two_state], currentIndex = 2\<rparr>,
                 calls := [TryOnCall (Some ''data:model'') tee_file,
                           TryOnCall (Some ''data:model+tee'') blazer_file]\<rparr>"

definition world_two_hat :: World where
  \<comment> \<open>the tee and the blazer are on and the hat has been added\<close>
  "world_two_hat =
     world_two\<lparr>hist := \<lparr>history = [model_state, tee_state, two_state, two_hat_state],
                         currentIndex = 3\<rparr>,
               calls := [TryOnCall (Some ''data:model'') tee_file,
                         TryOnCall (Some ''data:model+tee'') blazer_file,
                         AccessoryCall ''data:model+tee+blazer''
                           [File (item_name hat) (item_url hat)] [hat]]\<rparr>"

definition tee_outfit :: SavedOutfit where
  "tee_outfit =
     \<lparr>outfit_id = ''outfit-1'', outfit_name = ''Outfit - today'',
      thumbnailUrl = ''data:model+tee'', outfit_modelImageUrl = ''data:model'',
      outfit_garmentHistory =
        [\<lparr>saved_item = None, imageUrl = Some ''data:model''\<rparr>,
         \<lparr>saved_item = Some tee, imageUrl = Some ''data:model+tee''\<rparr>],
      outfit_activeAccessories = [], outfit_wardrobe = defaultWardrobe\<rparr>"

definition world_saved :: World where
  \<comment> \<open>the tee is on and the outfit has been saved\<close>
  "world_saved = world_tee\<lparr>savedOutfits := [tee_outfit]\<rparr>"

definition world_saved_hat :: World where
  \<comment> \<open>after the save the hat has been added\<close>
  "world_saved_hat = world_hat\<lparr>savedOutfits := [tee_outfit]\<rparr>"

definition bag_file :: jsfile where
  "bag_file = File ''bag'' ''b''"

definition hat_bag_state :: AppState where
  "hat_bag_state = hat_state\<lparr>activeAccessories := [hat, bag]\<rparr>"

definition world_hat_bag :: World where
  \<comment> \<open>the tee is on and the hat and the bag have been added\<close>
  "world_hat_bag =
     world_hat\<lparr>hist := \<lparr>history = [model_state, tee_state, hat_state, hat_bag_state],
                         currentIndex = 3\<rparr>,
               calls := [TryOnCall (Some ''data:model'') tee_file,
                         AccessoryCall ''data:model+tee'' [File (item_name hat) (item_url hat)] [hat],
                         AccessoryCall ''data:model+tee''
                           [File (item_name hat) (item_url hat), File (item_name bag) (item_url bag)]
                           [hat, bag]]\<rparr>"

definition world_saved_two_hat :: World where
  \<comment> \<open>the tee outfit has been saved, then the blazer and the hat have been added\<close>
  "world_saved_two_hat = world_two_hat\<lparr>savedOutfits := [tee_outfit]\<rparr>"

definition png_part :: Part where
  "png_part = \<lparr>inlineData = Some \<lparr>mimeType = Some ''image/png'', inline_data = Some ''AAAA''\<rparr>\<rparr>"

definition jpeg_part :: Part where
  "jpeg_part = \<lparr>inlineData = Some \<lparr>mimeType = Some ''image/jpeg'', inline_data = Some ''BBBB''\<rparr>\<rparr>"

definition text_part :: Part where
  "text_part = \<lparr>inlineData = None\<rparr>"

definition blocked_response :: GenerateContentResponse where
  \<comment> \<open>a blocked prompt whose response carries an image all the same\<close>
  "blocked_response =
     \<lparr>promptFeedback = Some \<lparr>blockReason = Some ''SAFETY'', blockReasonMessage = None\<rparr>,
      candidates = Some [\<lparr>content = Some \<lparr>parts = Some [png_part]\<rparr>, finishReason = Some ''STOP''\<rparr>],
      response_text = None\<rparr>"

definition text_candidate :: Candidate where
  "text_candidate = \<lparr>content = Some \<lparr>parts = Some [text_part]\<rparr>, finishReason = Some ''STOP''\<rparr>"

definition mixed_candidate :: Candidate where
  "mixed_candidate =
     \<lparr>content = Some \<lparr>parts = Some [text_part, png_part, jpeg_part]\<rparr>, finishReason = Some ''STOP''\<rparr>"

definition jpeg_candidate :: Candidate where
  "jpeg_candidate = \<lparr>content = Some \<lparr>parts = Some [jpeg_part]\<rparr>, finishReason = Some ''STOP''\<rparr>"

definition image_response :: GenerateContentResponse where
  \<comment> \<open>the first image is the second part of the second candidate\<close>
  "image_response =
     \<lparr>promptFeedback = None,
      candidates = Some [text_candidate, mixed_candidate, jpeg_candidate],
      response_text = None\<rparr>"

definition stopped_response :: GenerateContentResponse where
  "stopped_response =
     \<lparr>promptFeedback = None,
      candidates = Some [\<lparr>content = None, finishReason = Some ''SAFETY''\<rparr>],
      response_text = None\<rparr>"

definition text_response :: GenerateContentResponse where
  "text_response =
     \<lparr>promptFeedback = None,
      candidates = Some [text_candidate], response_text = Some ''no''\<rparr>"

section \<open>Undo and redo\<close>

lemma undo_decrements:
  "currentIndex h > 0 \<Longrightarrow> undo h = h\<lparr>currentIndex := currentIndex h - 1\<rparr>"
  by (simp add: undo_def)

lemma undo_keeps_index_valid:
  assumes "state h = Some s"
  shows "\<exists>s'. state (undo h) = Some s'"
  using assms by (auto simp: undo_def state_def nth_opt_def split: if_splits)

lemma redo_never_increments: "currentIndex (redo h) \<le> currentIndex h"
  by (simp add: redo_def)

lemma redo_after_undo:
  assumes "0 < currentIndex h" and "currentIndex h < int (length (history h))"
  shows "redo (undo h) = h\<lparr>currentIndex := currentIndex h - 2\<rparr>"
  using assms by (simp add: undo_def redo_def)

text \<open>
  C1 (evaluation at the failing input). With two states in the history and the first one
  current (the container after one \<open>setState\<close> and one \<open>undo\<close>), \<open>redo\<close> is enabled, and it
  moves \<open>currentIndex\<close> from 0 to -1 instead of 1: the index is no index of the history any
  more and the current state is \<open>undefined\<close>. Undo followed by redo does not come back to the
  state observed before the undo.
\<close>

theorem redo_decrements_at_first_state:
  "canRedo \<lparr>history = [a, b], currentIndex = 0\<rparr>
   \<and> redo \<lparr>history = [a, b], currentIndex = 0\<rparr> = \<lparr>history = [a, b], currentIndex = - 1\<rparr>
   \<and> state (redo \<lparr>history = [a, b], currentIndex = 0\<rparr>) = None
   \<and> redo (undo \<lparr>history = [a, b], currentIndex = 1\<rparr>) \<noteq> \<lparr>history = [a, b], currentIndex = 1\<rparr>"
  by (simp add: canRedo_def redo_def undo_def state_def nth_opt_def)

section \<open>The response of the image model\<close>

lemma imagePart_None_iff:
  "imagePart c = None \<longleftrightarrow> (\<forall>p \<in> set (candidate_parts c). inlineData p = None)"
  by (auto simp: imagePart_def candidate_parts_def find_None_iff split: option.splits
      dest: find_Some_iff[THEN iffD1])

lemma find_first_part:
  "\<forall>q \<in> set ps1. inlineData q = None \<Longrightarrow> inlineData p = Some d \<Longrightarrow>
   find (\<lambda>part. inlineData part \<noteq> None) (ps1 @ p # ps2) = Some p"
  by (induction ps1) auto

lemma imagePart_first:
  "candidate_parts c = ps1 @ p # ps2 \<Longrightarrow> \<forall>q \<in> set ps1. inlineData q = None \<Longrightarrow>
   inlineData p = Some d \<Longrightarrow> imagePart c = Some d"
  using find_first_part[of ps1 p d ps2]
  by (auto simp: imagePart_def candidate_parts_def split: option.splits)

lemma imagePart_Some:
  "imagePart c = Some d \<Longrightarrow> \<exists>p \<in> set (candidate_parts c). inlineData p = Some d"
  by (auto simp: imagePart_def candidate_parts_def split: option.splits
      dest!: find_Some_iff[THEN iffD1] intro: nth_mem)

lemma first_image_None_iff:
  "first_image cs = None \<longleftrightarrow> (\<forall>c \<in> set cs. imagePart c = None)"
  by (induction cs) (auto split: option.splits)

lemma first_image_first:
  "\<forall>c \<in> set pre. imagePart c = None \<Longrightarrow> imagePart cand = Some d \<Longrightarrow>
   first_image (pre @ cand # post) = Some d"
  by (induction pre) (auto split: option.splits)

lemma first_image_Some:
  "first_image cs = Some d \<Longrightarrow> \<exists>c \<in> set cs. imagePart c = Some d"
  by (induction cs) (auto split: option.splits)

lemma first_finish:
  "(case candidates r of None \<Rightarrow> None
    | Some cs \<Rightarrow> (case nth_opt cs 0 of None \<Rightarrow> None | Some cand \<Rightarrow> finishReason cand))
   = (case response_candidates r of [] \<Rightarrow> None | cand # rest \<Rightarrow> finishReason cand)"
  by (auto simp: response_candidates_def nth_opt_def split: option.splits list.splits)

text \<open>
  C9. \<open>handleApiResponse\<close> throws whenever the response carries a (non-empty) block reason,
  whatever its candidates hold. Otherwise, when some candidate has a part with inline data,
  it returns the data URL of the first such part of the first such candidate. When no
  candidate has one it throws: the finish-reason message when the first candidate's
  \<open>finishReason\<close> is present and not \<open>STOP\<close>, the generic message else. So every value it
  returns is the data URL of an image part of the response.
\<close>

theorem handleApiResponse_image_or_error:
  "(truthy (block_reason r) \<longrightarrow> (\<exists>msg. handleApiResponse trim r = Inl (Error msg)))
   \<and> (\<not> truthy (block_reason r)
        \<and> response_candidates r = pre @ cand # post
        \<and> (\<forall>c \<in> set pre. \<forall>q \<in> set (candidate_parts c). inlineData q = None)
        \<and> candidate_parts cand = earlier @ p # later
        \<and> (\<forall>q \<in> set earlier. inlineData q = None)
        \<and> inlineData p = Some d
        \<longrightarrow> handleApiResponse trim r = Inr (data_url d))
   \<and> (\<not> truthy (block_reason r)
        \<and> (\<forall>c \<in> set (response_candidates r). \<forall>q \<in> set (candidate_parts c). inlineData q = None)
        \<longrightarrow> handleApiResponse trim r =
              (let finish = (case response_candidates r of [] \<Rightarrow> None | c # rest \<Rightarrow> finishReason c)
               in if truthy finish \<and> finish \<noteq> Some ''STOP''
                  then Inl (Error (finish_message finish))
                  else Inl (Error (no_image_message (map_option trim (response_text r))))))
   \<and> (\<forall>u. handleApiResponse trim r = Inr u \<longrightarrow>
          (\<exists>c \<in> set (response_candidates r). \<exists>q \<in> set (candidate_parts c).
             \<exists>d. inlineData q = Some d \<and> u = data_url d))"
proof (intro conjI impI allI)
  assume "truthy (block_reason r)"
  then show "\<exists>msg. handleApiResponse trim r = Inl (Error msg)"
    by (simp add: handleApiResponse_def)
next
  assume a: "\<not> truthy (block_reason r)
        \<and> response_candidates r = pre @ cand # post
        \<and> (\<forall>c \<in> set pre. \<forall>q \<in> set (candidate_parts c). inlineData q = None)
        \<and> candidate_parts cand = earlier @ p # later
        \<and> (\<forall>q \<in> set earlier. inlineData q = None)
        \<and> inlineData p = Some d"
  then have "imagePart cand = Some d"
    by (auto intro: imagePart_first)
  moreover from a have "\<forall>c \<in> set pre. imagePart c = None"
    by (simp add: imagePart_None_iff)
  ultimately have "first_image (response_candidates r) = Some d"
    using a by (simp add: first_image_first)
  with a show "handleApiResponse trim r = Inr (data_url d)"
    by (simp add: handleApiResponse_def)
next
  assume a: "\<not> truthy (block_reason r)
        \<and> (\<forall>c \<in> set (response_candidates r). \<forall>q \<in> set (candidate_parts c). inlineData q = None)"
  then have "first_image (response_candidates r) = None"
    by (simp add: first_image_None_iff imagePart_None_iff)
  with a show "handleApiResponse trim r =
              (let finish = (case response_candidates r of [] \<Rightarrow> None | c # rest \<Rightarrow> finishReason c)
               in if truthy finish \<and> finish \<noteq> Some ''STOP''
                  then Inl (Error (finish_message finish))
                  else Inl (Error (no_image_message (map_option trim (response_text r)))))"
    by (simp add: handleApiResponse_def first_finish Let_def)
next
  fix u
  assume "handleApiResponse trim r = Inr u"
  then obtain d where d: "first_image (response_candidates r) = Some d" "u = data_url d"
    by (auto simp: handleApiResponse_def Let_def split: if_splits option.splits)
  then obtain c where c: "c \<in> set (response_candidates r)" "imagePart c = Some d"
    using first_image_Some by blast
  then obtain q where "q \<in> set (candidate_parts c)" "inlineData q = Some d"
    using imagePart_Some by blast
  with c d show "\<exists>c \<in> set (response_candidates r). \<exists>q \<in> set (candidate_parts c).
             \<exists>d. inlineData q = Some d \<and> u = data_url d"
    by blast
qed

theorem handleApiResponse_image_or_error_witness:
  "(\<exists>msg. handleApiResponse id blocked_response = Inl (Error msg))
   \<and> handleApiResponse id image_response = Inr ''data:image/png;base64,AAAA''
   \<and> handleApiResponse id stopped_response =
       Inl (Error ''Image generation stopped unexpectedly. Reason: SAFETY. This often relates to safety settings.'')
   \<and> handleApiResponse id text_response = Inl (Error (no_image_message (Some ''no'')))"
proof -
  have h_blocked: "truthy (block_reason blocked_response)"
    by (simp add: blocked_response_def block_reason_def truthy_def)
  have h_image: "\<not> truthy (block_reason image_response)
        \<and> response_candidates image_response = [text_candidate] @ mixed_candidate # [jpeg_candidate]
        \<and> (\<forall>c \<in> set [text_candidate]. \<forall>q \<in> set (candidate_parts c). inlineData q = None)
        \<and> candidate_parts mixed_candidate = [text_part] @ png_part # [jpeg_part]
        \<and> (\<forall>q \<in> set [text_part]. inlineData q = None)
        \<and> inlineData png_part = Some \<lparr>mimeType = Some ''image/png'', inline_data = Some ''AAAA''\<rparr>"
    by (simp add: image_response_def block_reason_def truthy_def response_candidates_def
        candidate_parts_def text_part_def png_part_def text_candidate_def mixed_candidate_def)
  have h_stopped: "\<not> truthy (block_reason stopped_response)
        \<and> (\<forall>c \<in> set (response_candidates stopped_response).
              \<forall>q \<in> set (candidate_parts c). inlineData q = None)"
    by (simp add: stopped_response_def block_reason_def truthy_def response_candidates_def
        candidate_parts_def)
  have h_text: "\<not> truthy (block_reason text_response)
        \<and> (\<forall>c \<in> set (response_candidates text_response).
              \<forall>q \<in> set (candidate_parts c). inlineData q = None)"
    by (simp add: text_response_def block_reason_def truthy_def response_candidates_def
        candidate_parts_def text_part_def text_candidate_def)
  from h_blocked have "\<exists>msg. handleApiResponse id blocked_response = Inl (Error msg)"
    using handleApiResponse_image_or_error[where r = blocked_response and trim = id] by blast
  moreover from h_image have "handleApiResponse id image_response = Inr ''data:image/png;base64,AAAA''"
    using handleApiResponse_image_or_error[where r = image_response and trim = id
        and pre = "[text_candidate]" and cand = mixed_candidate and post = "[jpeg_candidate]"
        and earlier = "[text_part]" and p = png_part and later = "[jpeg_part]"
        and d = "\<lparr>mimeType = Some ''image/png'', inline_data = Some ''AAAA''\<rparr>",
        THEN conjunct2, THEN conjunct1]
    by (simp add: data_url_def template_def)
  moreover from h_stopped have "handleApiResponse id stopped_response =
       Inl (Error ''Image generation stopped unexpectedly. Reason: SAFETY. This often relates to safety settings.'')"
    using handleApiResponse_image_or_error[where r = stopped_response and trim = id, THEN conjunct2, THEN conjunct2, THEN conjunct1]
    by (simp add: stopped_response_def response_candidates_def truthy_def finish_message_def template_def)
  moreover from h_text have "handleApiResponse id text_response = Inl (Error (no_image_message (Some ''no'')))"
    using handleApiResponse_image_or_error[where r = text_response and trim = id, THEN conjunct2, THEN conjunct2, THEN conjunct1]
    by (simp add: text_response_def response_candidates_def truthy_def text_candidate_def)
  ultimately show ?thesis by blast
qed

section \<open>The style score\<close>

lemma clamp_score:
  "\<exists>x. math_max (Finite 1) (math_min (Finite 10) n) = Finite x \<and> 1 \<le> x \<and> x \<le> 10
       \<and> (case n of Finite y \<Rightarrow> x = max 1 (min 10 y) | PosInfinity \<Rightarrow> x = 10 | NegInfinity \<Rightarrow> x = 1)"
  by (cases n) (auto simp: math_max_def math_min_def)

lemma read_score_ok:
  "map_of props ''score'' = Some (JNumber n) \<Longrightarrow> map_of props ''critique'' = Some (JString c) \<Longrightarrow>
   read_score (JObject props) = Inr \<lparr>score = math_max (Finite 1) (math_min (Finite 10) n), critique = c\<rparr>"
  by (simp add: read_score_def)

lemma read_score_bad:
  "\<not> (\<exists>props n c. result = JObject props \<and> map_of props ''score'' = Some (JNumber n)
        \<and> map_of props ''critique'' = Some (JString c)) \<Longrightarrow>
   read_score result = Inl format_error"
  by (auto simp: read_score_def split: json.splits option.splits)

text \<open>
  C7. For a non-empty item list and a model reply that parses as a JSON object with a
  numeric \<open>score\<close> and a string \<open>critique\<close>, \<open>generateStyleScore\<close> returns that critique
  with the score clamped to the interval from 1 to 10. For any other reply to a non-empty
  list it throws the format error. For the empty list it returns score 0 with the fixed
  message and sends nothing to the model; 0 is below the scale's lower end 1.
\<close>

theorem generateStyleScore_cases:
  "(items \<noteq> [] \<and> generateContent (style_prompt items) = Inr (Some t)
      \<and> JSON_parse (trim t) = Some (JObject props)
      \<and> map_of props ''score'' = Some (JNumber n) \<and> map_of props ''critique'' = Some (JString c)
    \<longrightarrow> (\<exists>x. generateStyleScore generateContent trim JSON_parse items =
               ([style_prompt items], Inr \<lparr>score = Finite x, critique = c\<rparr>)
             \<and> 1 \<le> x \<and> x \<le> 10
             \<and> (case n of Finite y \<Rightarrow> x = max 1 (min 10 y) | PosInfinity \<Rightarrow> x = 10 | NegInfinity \<Rightarrow> x = 1)))
   \<and> (items \<noteq> [] \<and> generateContent (style_prompt items) = Inr reply
      \<and> \<not> (\<exists>t props n c. reply = Some t \<and> JSON_parse (trim t) = Some (JObject props)
              \<and> map_of props ''score'' = Some (JNumber n) \<and> map_of props ''critique'' = Some (JString c))
    \<longrightarrow> generateStyleScore generateContent trim JSON_parse items = ([style_prompt items], Inl format_error))
   \<and> generateStyleScore generateContent trim JSON_parse [] =
       ([], Inr \<lparr>score = Finite 0, critique = ''Add some items to get a style score!''\<rparr>)
   \<and> \<not> jnumber_le (Finite 1) (Finite 0)"
proof (intro conjI impI)
  assume a: "items \<noteq> [] \<and> generateContent (style_prompt items) = Inr (Some t)
      \<and> JSON_parse (trim t) = Some (JObject props)
      \<and> map_of props ''score'' = Some (JNumber n) \<and> map_of props ''critique'' = Some (JString c)"
  obtain x where x: "math_max (Finite 1) (math_min (Finite 10) n) = Finite x" "1 \<le> x" "x \<le> 10"
    "(case n of Finite y \<Rightarrow> x = max 1 (min 10 y) | PosInfinity \<Rightarrow> x = 10 | NegInfinity \<Rightarrow> x = 1)"
    using clamp_score[of n] by blast
  from a have "generateStyleScore generateContent trim JSON_parse items =
      ([style_prompt items], Inr \<lparr>score = Finite x, critique = c\<rparr>)"
    by (simp add: generateStyleScore_def Let_def read_score_ok x)
  with x show "\<exists>x. generateStyleScore generateContent trim JSON_parse items =
               ([style_prompt items], Inr \<lparr>score = Finite x, critique = c\<rparr>)
             \<and> 1 \<le> x \<and> x \<le> 10
             \<and> (case n of Finite y \<Rightarrow> x = max 1 (min 10 y) | PosInfinity \<Rightarrow> x = 10 | NegInfinity \<Rightarrow> x = 1)"
    by blast
next
  assume a: "items \<noteq> [] \<and> generateContent (style_prompt items) = Inr reply
      \<and> \<not> (\<exists>t props n c. reply = Some t \<and> JSON_parse (trim t) = Some (JObject props)
              \<and> map_of props ''score'' = Some (JNumber n) \<and> map_of props ''critique'' = Some (JString c))"
  show "generateStyleScore generateContent trim JSON_parse items = ([style_prompt items], Inl format_error)"
  proof (cases reply)
    case None
    with a show ?thesis by (simp add: generateStyleScore_def Let_def)
  next
    case (Some t)
    show ?thesis
    proof (cases "JSON_parse (trim t)")
      case None
      with a Some show ?thesis by (simp add: generateStyleScore_def Let_def)
    next
      case (Some result)
      with a \<open>reply = Some t\<close> have "read_score result = Inl format_error"
        by (intro read_score_bad) auto
      with a Some \<open>reply = Some t\<close> show ?thesis by (simp add: generateStyleScore_def Let_def)
    qed
  qed
next
  show "generateStyleScore generateContent trim JSON_parse [] =
       ([], Inr \<lparr>score = Finite 0, critique = ''Add some items to get a style score!''\<rparr>)"
    by (simp add: generateStyleScore_def)
next
  show "\<not> jnumber_le (Finite 1) (Finite 0)" by simp
qed

theorem generateStyleScore_cases_witness:
  "generateStyleScore (\<lambda>prompt. Inr (Some ''{}'')) id
       (\<lambda>s. Some (JObject [(''score'', JNumber (Finite 12)), (''critique'', JString ''Bold.'')])) [tee]
     = ([style_prompt [tee]], Inr \<lparr>score = Finite 10, critique = ''Bold.''\<rparr>)
   \<and> generateStyleScore (\<lambda>prompt. Inr (Some ''none'')) id (\<lambda>s. None) [tee]
     = ([style_prompt [tee]], Inl format_error)"
proof -
  have "\<exists>x. generateStyleScore (\<lambda>prompt. Inr (Some ''{}'')) id
       (\<lambda>s. Some (JObject [(''score'', JNumber (Finite 12)), (''critique'', JString ''Bold.'')])) [tee]
     = ([style_prompt [tee]], Inr \<lparr>score = Finite x, critique = ''Bold.''\<rparr>)
     \<and> 1 \<le> x \<and> x \<le> 10
     \<and> (case Finite 12 of Finite y \<Rightarrow> x = max 1 (min 10 y) | PosInfinity \<Rightarrow> x = 10 | NegInfinity \<Rightarrow> x = 1)"
    using generateStyleScore_cases[where items = "[tee]" and generateContent = "\<lambda>prompt. Inr (Some ''{}'')"
        and trim = id and t = "''{}''"
        and JSON_parse = "\<lambda>s. Some (JObject [(''score'', JNumber (Finite 12)), (''critique'', JString ''Bold.'')])"
        and props = "[(''score'', JNumber (Finite 12)), (''critique'', JString ''Bold.'')]"
        and n = "Finite 12" and c = "''Bold.''", THEN conjunct1]
    by simp
  then have ok: "generateStyleScore (\<lambda>prompt. Inr (Some ''{}'')) id
       (\<lambda>s. Some (JObject [(''score'', JNumber (Finite 12)), (''critique'', JString ''Bold.'')])) [tee]
     = ([style_prompt [tee]], Inr \<lparr>score = Finite 10, critique = ''Bold.''\<rparr>)"
    by auto
  have "generateStyleScore (\<lambda>prompt. Inr (Some ''none'')) id (\<lambda>s. None) [tee]
     = ([style_prompt [tee]], Inl format_error)"
    using generateStyleScore_cases[where items = "[tee]" and generateContent = "\<lambda>prompt. Inr (Some ''none'')"
        and trim = id and JSON_parse = "\<lambda>s. None" and reply = "Some ''none''",
        THEN conjunct2, THEN conjunct1]
    by simp
  with ok show ?thesis by simp
qed

section \<open>The history container under the handlers\<close>

lemma state_index:
  "state h = Some s \<Longrightarrow> 0 \<le> currentIndex h \<and> currentIndex h < int (length (history h))"
  by (simp add: state_def nth_opt_def split: if_splits)

lemma capture_Some:
  "state h = Some s \<Longrightarrow>
   capture h = Some \<lparr>cHistory = history h, cIndex = currentIndex h, cState = s\<rparr>"
  by (simp add: capture_def)

lemma state_pushed: "state \<lparr>history = xs @ [x], currentIndex = int (length xs)\<rparr> = Some x"
  by (simp add: state_def nth_opt_def)

lemma setState_push:
  assumes "state h = Some s" and "\<not> jeq (f s) s"
  shows "setState jeq \<lparr>cHistory = history h, cIndex = currentIndex h, cState = s\<rparr> f cur =
           \<lparr>history = take (nat (currentIndex h) + 1) (history h) @ [f s],
            currentIndex = currentIndex h + 1\<rparr>"
proof -
  from state_index[OF assms(1)]
  have i: "0 \<le> currentIndex h" "currentIndex h < int (length (history h))"
    by simp_all
  then have "min (length (history h)) (nat (currentIndex h + 1)) = nat (currentIndex h) + 1"
    by linarith
  with i assms(2) show ?thesis
    by (simp add: setState_def Let_def slice0_def nat_add_distrib)
qed

lemma index_nat: "0 \<le> i \<Longrightarrow> i < int (length xs) \<Longrightarrow> \<exists>n. i = int n \<and> n < length xs"
  by (rule exI[of _ "nat i"]) auto

lemma state_after_push:
  assumes "state h = Some s"
  shows "state \<lparr>history = take (nat (currentIndex h) + 1) (history h) @ [x],
                 currentIndex = currentIndex h + 1\<rparr> = Some x"
proof -
  from state_index[OF assms] obtain n where n: "currentIndex h = int n" "n < length (history h)"
    using index_nat by blast
  have "nat (int n + 1) = Suc n" by simp
  with n show ?thesis
    by (simp add: state_def nth_opt_def nth_append min_def del: take_Suc_conv_app_nth)
qed

lemma setState_same:
  "jeq (f s) s \<Longrightarrow> setState jeq \<lparr>cHistory = hs, cIndex = i, cState = s\<rparr> f cur = cur"
  by (simp add: setState_def)

lemma deref_append_old: "r < length hp \<Longrightarrow> deref (hp @ ls) r = deref hp r"
  by (simp add: deref_def nth_opt_def nth_append)

lemma deref_append_new: "deref (hp @ [l]) (length hp) = Some l"
  by (simp add: deref_def nth_opt_def)

lemma layers_of_append_old:
  "list_all (\<lambda>r. r < length hp) rs \<Longrightarrow> layers_of (hp @ ls) rs = layers_of hp rs"
  by (induction rs) (auto simp: layers_of_def List.map_filter_simps deref_append_old split: option.splits)

lemma layers_of_append: "layers_of hp (rs @ rs') = layers_of hp rs @ layers_of hp rs'"
  by (simp add: layers_of_def List.map_filter_def)

lemma layers_of_new: "layers_of (hp @ [l]) [length hp] = [l]"
  by (simp add: layers_of_def List.map_filter_simps deref_append_new)

lemma setState_pushed:
  assumes "state h = Some s" and "\<not> jeq (f s) s"
  shows "setState jeq \<lparr>cHistory = history h, cIndex = currentIndex h, cState = s\<rparr> f cur = pushed h (f s)"
  using setState_push[OF assms(1), of jeq f cur] assms(2) by (simp add: pushed_def)

lemma state_pushed_current: "state h = Some s \<Longrightarrow> state (pushed h x) = Some x"
  using state_after_push[of h s x] by (simp add: pushed_def)

lemma layer_at_Some:
  "layer_at hp gh i = Some l \<Longrightarrow> \<exists>r. nth_opt gh i = Some r \<and> deref hp r = Some l"
  by (auto simp: layer_at_def split: option.splits)

section \<open>The example worlds are reachable\<close>

lemmas ex_defs = world_model_def world_tee_def world_removed_def world_hat_def world_two_def
  world_two_hat_def world_saved_def world_saved_hat_def world_hat_bag_def world_saved_two_hat_def tee_outfit_def
  model_state_def tee_state_def removed_state_def hat_state_def two_state_def two_hat_state_def
  hat_bag_state_def bag_file_def
  base_layer_def tee_layer_def blazer_layer_def tee_file_def blazer_file_def hat_file_def
  tee_def blazer_def hat_def bag_def ok_env_def failing_env_def friendly_def

lemmas run_defs = handleItemSelect_def handlePoseSelect_def handleRemoveLastGarment_def
  handleModelFinalized_def handleSaveOutfit_def handleLoadOutfit_def handleReorderGarments_def
  updateAccessoryLayer_def accessory_base_def select_base_def displayImageUrl_def
  is_next_layer_def layer_at_def layers_of_def activeGarmentLayers_def
  generateGarmentTryOnImage_def finally_clear_def
  capture_def state_def setState_def reset_def json_eq_def json_state_def json_layer_def json_object_def
  alloc_def deref_def nth_opt_def slice0_def truthy_def nullish_or_def startsWith_def first_value_def
  pose_key_def POSE_INSTRUCTIONS_def initialState_def initial_hist_def initial_world_def
  layer_id_def Let_def

lemma world_model_reachable: "world_model = handleModelFinalized ''data:model'' initial_world"
  by (simp add: ex_defs run_defs)

lemma world_tee_reachable: "world_tee = handleItemSelect ok_env tee_file tee world_model"
  by (simp add: ex_defs run_defs defaultWardrobe_def)

lemma world_removed_reachable: "world_removed = handleRemoveLastGarment world_tee"
  by (simp add: ex_defs run_defs)

lemma world_hat_reachable: "world_hat = handleItemSelect ok_env hat_file hat world_tee"
  by (simp add: ex_defs run_defs)

lemma world_two_reachable: "world_two = handleItemSelect ok_env blazer_file blazer world_tee"
  by (simp add: ex_defs run_defs defaultWardrobe_def)

lemma world_two_hat_reachable: "world_two_hat = handleItemSelect ok_env hat_file hat world_two"
  by (simp add: ex_defs run_defs)

lemma world_saved_reachable: "world_saved = handleSaveOutfit ''1'' ''today'' world_tee"
  by (simp add: ex_defs run_defs)

lemma world_saved_hat_reachable: "world_saved_hat = handleItemSelect ok_env hat_file hat world_saved"
  by (simp add: ex_defs run_defs)

section \<open>Selecting a garment\<close>

text \<open>
  C2. In a state whose current garment index is an index of the garment history, with the
  handler enabled (not loading, a base image to work on): selecting a garment that is not
  the item of the next layer, when the try-on call succeeds, pushes a state whose garment
  history is the layers up to and including the current one followed by one new layer;
  the new layer holds the selected item and the generated image under the current pose
  instruction; \<open>currentGarmentIndex\<close> is the index of the new layer; the accessories and
  their image are cleared. Exactly one generation call is made.
\<close>

theorem garment_select_adds_layer:
  assumes st: "state (hist w) = Some s"
    and idle: "\<not> isLoading w"
    and base: "truthy (select_base (heap w) s)"
    and garment: "item_type itemInfo = Garment"
    and differs: "\<not> is_next_layer (layer_at (heap w) (garmentHistory s) (currentGarmentIndex s + 1)) itemInfo"
    and generated: "generateGarmentTryOnImage e (select_base (heap w) s) itemFile = Inr newImageUrl"
    and idx: "0 \<le> currentGarmentIndex s \<and> currentGarmentIndex s < int (length (garmentHistory s))"
    and refs: "list_all (\<lambda>r. r < length (heap w)) (garmentHistory s)"
    and w': "w' = handleItemSelect e itemFile itemInfo w"
    and s': "s' = s\<lparr>garmentHistory := take (nat (currentGarmentIndex s) + 1) (garmentHistory s) @ [length (heap w)],
                   currentGarmentIndex := currentGarmentIndex s + 1,
                   activeAccessories := [],
                   generatedAccessoryImageUrl := None\<rparr>"
  shows "hist w' = \<lparr>history = take (nat (currentIndex (hist w)) + 1) (history (hist w)) @ [s'],
                    currentIndex = currentIndex (hist w) + 1\<rparr>
       \<and> state (hist w') = Some s'
       \<and> layers_of (heap w') (garmentHistory s') =
           layers_of (heap w) (take (nat (currentGarmentIndex s) + 1) (garmentHistory s))
           @ [\<lparr>item = Some itemInfo, poseImages = [(pose_key (currentPoseIndex s), Some newImageUrl)]\<rparr>]
       \<and> currentGarmentIndex s' = int (length (garmentHistory s')) - 1
       \<and> calls w' = calls w @ [TryOnCall (select_base (heap w) s) itemFile]"
proof -
  let ?f = "\<lambda>prev. prev\<lparr>garmentHistory := slice0 (garmentHistory prev) (currentGarmentIndex prev + 1) @ [length (heap w)],
                   currentGarmentIndex := currentGarmentIndex prev + 1,
                   activeAccessories := [],
                   generatedAccessoryImageUrl := None\<rparr>"
  let ?l = "\<lparr>item = Some itemInfo, poseImages = [(pose_key (currentPoseIndex s), Some newImageUrl)]\<rparr>"
  from idx have fs: "?f s = s'"
    by (simp add: s' slice0_def nat_add_distrib)
  have neq: "\<not> json_eq (heap w @ [?l]) (?f s) s"
    by (simp add: json_eq_def json_state_def)
  have run: "w' = finally_clear
      (w\<lparr>error := None, isLoading := True,
          loadingMessage := ''Adding '' @ item_name itemInfo @ ''...'',
          calls := calls w @ [TryOnCall (select_base (heap w) s) itemFile],
          heap := heap w @ [?l],
          hist := setState (json_eq (heap w @ [?l]))
                    \<lparr>cHistory = history (hist w), cIndex = currentIndex (hist w), cState = s\<rparr> ?f (hist w),
          wardrobe := (if list_ex (\<lambda>i. item_id i = item_id itemInfo) (wardrobe w)
                       then wardrobe w else wardrobe w @ [itemInfo])\<rparr>)"
    using idle base garment differs generated
    by (simp add: w' handleItemSelect_def capture_Some[OF st] Let_def alloc_def)
  have h: "hist w' = \<lparr>history = take (nat (currentIndex (hist w)) + 1) (history (hist w)) @ [s'],
                    currentIndex = currentIndex (hist w) + 1\<rparr>"
    using setState_push[where h = "hist w" and s = s and f = ?f
        and jeq = "json_eq (heap w @ [?l])" and cur = "hist w", OF st neq]
    by (simp add: run finally_clear_def fs)
  have "state (hist w') = Some s'"
    by (simp only: h state_after_push[OF st])
  moreover have "heap w' = heap w @ [?l]" "calls w' = calls w @ [TryOnCall (select_base (heap w) s) itemFile]"
    by (simp_all add: run finally_clear_def)
  moreover have "list_all (\<lambda>r. r < length (heap w)) (take (nat (currentGarmentIndex s) + 1) (garmentHistory s))"
    using refs by (auto simp: list_all_iff dest: in_set_takeD)
  moreover have "currentGarmentIndex s' = int (length (garmentHistory s')) - 1"
  proof -
    from idx obtain n where "currentGarmentIndex s = int n" "n < length (garmentHistory s)"
      using index_nat by blast
    then show ?thesis by (simp add: s' min_def)
  qed
  ultimately show ?thesis
    using h by (simp add: s' layers_of_append layers_of_append_old layers_of_new)
qed

theorem garment_select_adds_layer_witness:
  "state (hist (handleItemSelect ok_env blazer_file blazer world_removed)) =
     Some (removed_state\<lparr>garmentHistory := [0, 2], currentGarmentIndex := 1\<rparr>)
   \<and> layers_of (heap (handleItemSelect ok_env blazer_file blazer world_removed)) [0, 2] =
       [base_layer, \<lparr>item = Some blazer, poseImages = [(pose_key 0, Some ''data:model+blazer'')]\<rparr>]
   \<and> calls (handleItemSelect ok_env blazer_file blazer world_removed) =
       calls world_removed @ [TryOnCall (Some ''data:model'') blazer_file]"
proof -
  have st: "state (hist world_removed) = Some removed_state"
    by (simp add: ex_defs run_defs)
  have idle: "\<not> isLoading world_removed"
    by (simp add: ex_defs)
  have sel: "select_base (heap world_removed) removed_state = Some ''data:model''"
    by (simp add: ex_defs run_defs)
  have base: "truthy (select_base (heap world_removed) removed_state)"
    by (simp add: sel truthy_def)
  have garment: "item_type blazer = Garment"
    by (simp add: blazer_def)
  have differs: "\<not> is_next_layer (layer_at (heap world_removed) (garmentHistory removed_state)
                    (currentGarmentIndex removed_state + 1)) blazer"
    by (simp add: ex_defs run_defs)
  have generated: "generateGarmentTryOnImage ok_env (select_base (heap world_removed) removed_state)
                     blazer_file = Inr ''data:model+blazer''"
    by (simp add: sel generateGarmentTryOnImage_def ok_env_def blazer_file_def)
  have idx: "0 \<le> currentGarmentIndex removed_state
             \<and> currentGarmentIndex removed_state < int (length (garmentHistory removed_state))"
    by (simp add: ex_defs)
  have refs: "list_all (\<lambda>r. r < length (heap world_removed)) (garmentHistory removed_state)"
    by (simp add: ex_defs)
  from garment_select_adds_layer[OF st idle base garment differs generated idx refs refl refl]
  show ?thesis
    by (simp add: sel) (simp add: ex_defs run_defs)
qed

text \<open>
  C3. With the handler enabled, selecting a garment whose id is the item id of the layer at
  \<open>currentGarmentIndex + 1\<close> makes no generation call: the only change of the component's
  state is one pushed history entry, the current state with \<open>currentGarmentIndex\<close>
  incremented, \<open>currentPoseIndex\<close> 0 and the accessories and their image cleared.
\<close>

theorem garment_select_replays_next_layer:
  assumes st: "state (hist w) = Some s"
    and idle: "\<not> isLoading w"
    and base: "truthy (select_base (heap w) s)"
    and garment: "item_type itemInfo = Garment"
    and nxt: "layer_at (heap w) (garmentHistory s) (currentGarmentIndex s + 1) = Some nextLayer"
    and same: "item nextLayer = Some it \<and> item_id it = item_id itemInfo"
    and s': "s' = s\<lparr>currentGarmentIndex := currentGarmentIndex s + 1, currentPoseIndex := 0,
                   activeAccessories := [], generatedAccessoryImageUrl := None\<rparr>"
  shows "handleItemSelect e itemFile itemInfo w =
           w\<lparr>hist := \<lparr>history = take (nat (currentIndex (hist w)) + 1) (history (hist w)) @ [s'],
                      currentIndex = currentIndex (hist w) + 1\<rparr>\<rparr>
       \<and> state (hist (handleItemSelect e itemFile itemInfo w)) = Some s'
       \<and> calls (handleItemSelect e itemFile itemInfo w) = calls w"
proof -
  let ?f = "\<lambda>prev. prev\<lparr>currentGarmentIndex := currentGarmentIndex prev + 1, currentPoseIndex := 0,
                   activeAccessories := [], generatedAccessoryImageUrl := None\<rparr>"
  have neq: "\<not> json_eq (heap w) (?f s) s"
    by (simp add: json_eq_def json_state_def)
  have run: "handleItemSelect e itemFile itemInfo w =
      w\<lparr>hist := setState (json_eq (heap w))
                  \<lparr>cHistory = history (hist w), cIndex = currentIndex (hist w), cState = s\<rparr> ?f (hist w)\<rparr>"
    using idle base garment nxt same
    by (simp add: handleItemSelect_def capture_Some[OF st] Let_def is_next_layer_def)
  have h: "handleItemSelect e itemFile itemInfo w =
           w\<lparr>hist := \<lparr>history = take (nat (currentIndex (hist w)) + 1) (history (hist w)) @ [s'],
                      currentIndex = currentIndex (hist w) + 1\<rparr>\<rparr>"
    using setState_push[where h = "hist w" and s = s and f = ?f
        and jeq = "json_eq (heap w)" and cur = "hist w", OF st neq]
    by (simp add: run s')
  show ?thesis
    using state_after_push[OF st, of s'] by (simp add: h)
qed

theorem garment_select_replays_next_layer_witness:
  "handleItemSelect ok_env tee_file tee world_removed =
     world_removed\<lparr>hist := \<lparr>history = [model_state, tee_state, removed_state, tee_state],
                             currentIndex = 3\<rparr>\<rparr>
   \<and> calls (handleItemSelect ok_env tee_file tee world_removed) = calls world_removed"
proof -
  have st: "state (hist world_removed) = Some removed_state"
    by (simp add: ex_defs run_defs)
  have idle: "\<not> isLoading world_removed"
    by (simp add: ex_defs)
  have base: "truthy (select_base (heap world_removed) removed_state)"
    by (simp add: ex_defs run_defs)
  have garment: "item_type tee = Garment"
    by (simp add: tee_def)
  have nxt: "layer_at (heap world_removed) (garmentHistory removed_state)
               (currentGarmentIndex removed_state + 1) = Some tee_layer"
    by (simp add: ex_defs run_defs)
  have same: "item tee_layer = Some tee \<and> item_id tee = item_id tee"
    by (simp add: tee_layer_def)
  from garment_select_replays_next_layer[OF st idle base garment nxt same refl]
  show ?thesis
    by (simp add: ex_defs)
qed

section \<open>Selecting an accessory\<close>

lemma filter_removes:
  "list_ex (\<lambda>a. item_id a = k) xs \<Longrightarrow> filter (\<lambda>a. item_id a \<noteq> k) xs \<noteq> xs"
  by (auto simp: filter_id_conv list_ex_iff)

lemma update_accessories_success:
  assumes st: "state (hist w) = Some s"
    and ab: "accessory_base (heap w) s override = Some b \<and> b \<noteq> []"
    and ne: "accs \<noteq> []"
    and files: "promise_all (\<lambda>acc. urlToFile e (item_url acc) (item_name acc)) accs = Inr fs"
    and gen: "accessoryTryOn e b fs accs = Inr u"
    and changed: "accs \<noteq> activeAccessories s \<or> generatedAccessoryImageUrl s \<noteq> Some u"
  shows "updateAccessoryLayer e \<lparr>cHistory = history (hist w), cIndex = currentIndex (hist w), cState = s\<rparr>
           accs override w =
         w\<lparr>isLoading := False, loadingMessage := [], error := None,
           calls := calls w @ [AccessoryCall b fs accs],
           hist := pushed (hist w) (s\<lparr>generatedAccessoryImageUrl := Some u, activeAccessories := accs\<rparr>)\<rparr>"
proof -
  let ?f = "\<lambda>prev. prev\<lparr>generatedAccessoryImageUrl := Some u, activeAccessories := accs\<rparr>"
  from changed have neq: "\<not> json_eq (heap w) (?f s) s"
    by (auto simp: json_eq_def json_state_def)
  show ?thesis
    using ab ne files gen setState_pushed[where h = "hist w" and s = s and f = ?f
        and jeq = "json_eq (heap w)" and cur = "hist w", OF st neq]
    by (simp add: updateAccessoryLayer_def Let_def finally_clear_def)
qed

lemma update_accessories_empty:
  assumes st: "state (hist w) = Some s"
    and ab: "accessory_base (heap w) s override = Some b \<and> b \<noteq> []"
    and changed: "activeAccessories s \<noteq> [] \<or> generatedAccessoryImageUrl s \<noteq> None"
  shows "updateAccessoryLayer e \<lparr>cHistory = history (hist w), cIndex = currentIndex (hist w), cState = s\<rparr>
           [] override w =
         w\<lparr>hist := pushed (hist w) (s\<lparr>generatedAccessoryImageUrl := None, activeAccessories := []\<rparr>)\<rparr>"
proof -
  let ?f = "\<lambda>prev. prev\<lparr>generatedAccessoryImageUrl := None, activeAccessories := []\<rparr>"
  from changed have neq: "\<not> json_eq (heap w) (?f s) s"
    by (auto simp: json_eq_def json_state_def)
  show ?thesis
    using ab setState_pushed[where h = "hist w" and s = s and f = ?f
        and jeq = "json_eq (heap w)" and cur = "hist w", OF st neq]
    by (simp add: updateAccessoryLayer_def Let_def)
qed

lemma select_accessory_run:
  assumes st: "state (hist w) = Some s"
    and idle: "\<not> isLoading w"
    and base: "truthy (select_base (heap w) s)"
    and acc: "item_type itemInfo = Accessory"
  shows "handleItemSelect e itemFile itemInfo w =
         updateAccessoryLayer e \<lparr>cHistory = history (hist w), cIndex = currentIndex (hist w), cState = s\<rparr>
           (if list_ex (\<lambda>a. item_id a = item_id itemInfo) (activeAccessories s)
            then filter (\<lambda>a. item_id a \<noteq> item_id itemInfo) (activeAccessories s)
            else activeAccessories s @ [itemInfo]) None w"
  using idle base acc by (simp add: handleItemSelect_def capture_Some[OF st] Let_def)

lemma accessory_select_cases:
  assumes st: "state (hist w) = Some s"
    and idle: "\<not> isLoading w"
    and base: "truthy (select_base (heap w) s)"
    and acc: "item_type itemInfo = Accessory"
    and ab: "accessory_base (heap w) s None = Some b \<and> b \<noteq> []"
    and active: "active = list_ex (\<lambda>a. item_id a = item_id itemInfo) (activeAccessories s)"
    and remaining: "remaining = filter (\<lambda>a. item_id a \<noteq> item_id itemInfo) (activeAccessories s)"
    and w': "w' = handleItemSelect e itemFile itemInfo w"
  shows "(active \<and> remaining = [] \<longrightarrow>
            w' = w\<lparr>hist := pushed (hist w)
                      (s\<lparr>generatedAccessoryImageUrl := None, activeAccessories := []\<rparr>)\<rparr>
            \<and> calls w' = calls w)
       \<and> (active \<and> remaining \<noteq> []
            \<and> promise_all (\<lambda>a. urlToFile e (item_url a) (item_name a)) remaining = Inr fs
            \<and> accessoryTryOn e b fs remaining = Inr u \<longrightarrow>
            state (hist w') = Some (s\<lparr>generatedAccessoryImageUrl := Some u, activeAccessories := remaining\<rparr>)
            \<and> calls w' = calls w @ [AccessoryCall b fs remaining])
       \<and> (\<not> active
            \<and> promise_all (\<lambda>a. urlToFile e (item_url a) (item_name a)) (activeAccessories s @ [itemInfo]) = Inr fs
            \<and> accessoryTryOn e b fs (activeAccessories s @ [itemInfo]) = Inr u \<longrightarrow>
            state (hist w') = Some (s\<lparr>generatedAccessoryImageUrl := Some u,
                                      activeAccessories := activeAccessories s @ [itemInfo]\<rparr>)
            \<and> calls w' = calls w @ [AccessoryCall b fs (activeAccessories s @ [itemInfo])])"
proof (intro conjI impI)
  assume a: "active \<and> remaining = []"
  then have "activeAccessories s \<noteq> []"
    by (auto simp: active)
  then have "w' = w\<lparr>hist := pushed (hist w)
                      (s\<lparr>generatedAccessoryImageUrl := None, activeAccessories := []\<rparr>)\<rparr>"
    using a update_accessories_empty[OF st ab, of e]
    by (simp add: w' select_accessory_run[OF st idle base acc] active[symmetric] remaining[symmetric])
  then show "w' = w\<lparr>hist := pushed (hist w)
                      (s\<lparr>generatedAccessoryImageUrl := None, activeAccessories := []\<rparr>)\<rparr>"
    and "calls w' = calls w"
    by simp_all
next
  assume a: "active \<and> remaining \<noteq> []
            \<and> promise_all (\<lambda>a. urlToFile e (item_url a) (item_name a)) remaining = Inr fs
            \<and> accessoryTryOn e b fs remaining = Inr u"
  then have "remaining \<noteq> activeAccessories s"
    using filter_removes[of "item_id itemInfo" "activeAccessories s"] by (simp add: active remaining)
  then have "w' = w\<lparr>isLoading := False, loadingMessage := [], error := None,
           calls := calls w @ [AccessoryCall b fs remaining],
           hist := pushed (hist w) (s\<lparr>generatedAccessoryImageUrl := Some u, activeAccessories := remaining\<rparr>)\<rparr>"
    using a update_accessories_success[OF st ab, of remaining e fs u]
    by (simp add: w' select_accessory_run[OF st idle base acc] active[symmetric] remaining[symmetric])
  then show "state (hist w') = Some (s\<lparr>generatedAccessoryImageUrl := Some u, activeAccessories := remaining\<rparr>)"
    and "calls w' = calls w @ [AccessoryCall b fs remaining]"
    by (simp_all add: state_pushed_current[OF st])
next
  assume a: "\<not> active
            \<and> promise_all (\<lambda>a. urlToFile e (item_url a) (item_name a)) (activeAccessories s @ [itemInfo]) = Inr fs
            \<and> accessoryTryOn e b fs (activeAccessories s @ [itemInfo]) = Inr u"
  then have "w' = w\<lparr>isLoading := False, loadingMessage := [], error := None,
           calls := calls w @ [AccessoryCall b fs (activeAccessories s @ [itemInfo])],
           hist := pushed (hist w) (s\<lparr>generatedAccessoryImageUrl := Some u,
                                      activeAccessories := activeAccessories s @ [itemInfo]\<rparr>)\<rparr>"
    using update_accessories_success[OF st ab, of "activeAccessories s @ [itemInfo]" e fs u]
    by (simp add: w' select_accessory_run[OF st idle base acc] active[symmetric])
  then show "state (hist w') = Some (s\<lparr>generatedAccessoryImageUrl := Some u,
                                      activeAccessories := activeAccessories s @ [itemInfo]\<rparr>)"
    and "calls w' = calls w @ [AccessoryCall b fs (activeAccessories s @ [itemInfo])]"
    by (simp_all add: state_pushed_current[OF st])
qed

lemma active_garment_click_noop:
  assumes "state (hist w) = Some s"
    and "item_type garmentInfo = Garment \<and> item_id garmentInfo \<in> set (activeItemIds (heap w) s)"
  shows "wardrobe_click e garmentInfo (panelError, w) = (panelError, w)"
  using assms(2) by (simp add: wardrobe_click_def capture_Some[OF assms(1)] handleItemClick_def)

text \<open>
  C10. With the handler enabled and a base image for the overlay: selecting an accessory
  whose id is among the active accessories removes it, at once and with no generation call
  when no accessory remains (the accessory image becomes \<open>null\<close>), and with the overlay
  regenerated for the remaining ones otherwise; selecting an accessory that is not active
  appends it and regenerates the overlay (the regeneration succeeding in both cases). In
  the wardrobe panel, a click on a garment whose id is among the active item ids does
  nothing.
\<close>

theorem accessory_select_toggles:
  "(state (hist w) = Some s \<and> \<not> isLoading w \<and> truthy (select_base (heap w) s)
      \<and> item_type itemInfo = Accessory
      \<and> accessory_base (heap w) s None = Some b \<and> b \<noteq> []
    \<longrightarrow>
      (let active = list_ex (\<lambda>a. item_id a = item_id itemInfo) (activeAccessories s);
           remaining = filter (\<lambda>a. item_id a \<noteq> item_id itemInfo) (activeAccessories s);
           extended = activeAccessories s @ [itemInfo];
           w' = handleItemSelect e itemFile itemInfo w
       in (active \<and> remaining = [] \<longrightarrow>
             w' = w\<lparr>hist := pushed (hist w)
                       (s\<lparr>generatedAccessoryImageUrl := None, activeAccessories := []\<rparr>)\<rparr>)
          \<and> (active \<and> remaining \<noteq> []
               \<and> promise_all (\<lambda>a. urlToFile e (item_url a) (item_name a)) remaining = Inr fs
               \<and> accessoryTryOn e b fs remaining = Inr u \<longrightarrow>
             state (hist w') =
               Some (s\<lparr>generatedAccessoryImageUrl := Some u, activeAccessories := remaining\<rparr>)
             \<and> calls w' = calls w @ [AccessoryCall b fs remaining])
          \<and> (\<not> active
               \<and> promise_all (\<lambda>a. urlToFile e (item_url a) (item_name a)) extended = Inr fs
               \<and> accessoryTryOn e b fs extended = Inr u \<longrightarrow>
             state (hist w') =
               Some (s\<lparr>generatedAccessoryImageUrl := Some u, activeAccessories := extended\<rparr>)
             \<and> calls w' = calls w @ [AccessoryCall b fs extended])))
   \<and> (state (hist w) = Some s
      \<and> item_type garmentInfo = Garment \<and> item_id garmentInfo \<in> set (activeItemIds (heap w) s)
    \<longrightarrow> wardrobe_click e garmentInfo (panelError, w) = (panelError, w))"
proof -
  have "wardrobe_click e garmentInfo (panelError, w) = (panelError, w)"
    if "state (hist w) = Some s
      \<and> item_type garmentInfo = Garment \<and> item_id garmentInfo \<in> set (activeItemIds (heap w) s)"
    using that active_garment_click_noop by blast
  moreover have "(list_ex (\<lambda>a. item_id a = item_id itemInfo) (activeAccessories s)
         \<and> filter (\<lambda>a. item_id a \<noteq> item_id itemInfo) (activeAccessories s) = []
       \<longrightarrow> handleItemSelect e itemFile itemInfo w =
             w\<lparr>hist := pushed (hist w)
                  (s\<lparr>generatedAccessoryImageUrl := None, activeAccessories := []\<rparr>)\<rparr>
           \<and> calls (handleItemSelect e itemFile itemInfo w) = calls w)
      \<and> (list_ex (\<lambda>a. item_id a = item_id itemInfo) (activeAccessories s)
         \<and> filter (\<lambda>a. item_id a \<noteq> item_id itemInfo) (activeAccessories s) \<noteq> []
         \<and> promise_all (\<lambda>a. urlToFile e (item_url a) (item_name a))
              (filter (\<lambda>a. item_id a \<noteq> item_id itemInfo) (activeAccessories s)) = Inr fs
         \<and> accessoryTryOn e b fs (filter (\<lambda>a. item_id a \<noteq> item_id itemInfo) (activeAccessories s)) = Inr u
       \<longrightarrow> state (hist (handleItemSelect e itemFile itemInfo w)) =
             Some (s\<lparr>generatedAccessoryImageUrl := Some u,
                     activeAccessories := filter (\<lambda>a. item_id a \<noteq> item_id itemInfo) (activeAccessories s)\<rparr>)
           \<and> calls (handleItemSelect e itemFile itemInfo w) =
             calls w @ [AccessoryCall b fs (filter (\<lambda>a. item_id a \<noteq> item_id itemInfo) (activeAccessories s))])
      \<and> (\<not> list_ex (\<lambda>a. item_id a = item_id itemInfo) (activeAccessories s)
         \<and> promise_all (\<lambda>a. urlToFile e (item_url a) (item_name a)) (activeAccessories s @ [itemInfo]) = Inr fs
         \<and> accessoryTryOn e b fs (activeAccessories s @ [itemInfo]) = Inr u
       \<longrightarrow> state (hist (handleItemSelect e itemFile itemInfo w)) =
             Some (s\<lparr>generatedAccessoryImageUrl := Some u,
                     activeAccessories := activeAccessories s @ [itemInfo]\<rparr>)
           \<and> calls (handleItemSelect e itemFile itemInfo w) =
             calls w @ [AccessoryCall b fs (activeAccessories s @ [itemInfo])])"
    if "state (hist w) = Some s \<and> \<not> isLoading w \<and> truthy (select_base (heap w) s)
      \<and> item_type itemInfo = Accessory
      \<and> accessory_base (heap w) s None = Some b \<and> b \<noteq> []"
    using accessory_select_cases[where w = w and s = s and itemInfo = itemInfo and b = b
        and e = e and itemFile = itemFile and fs = fs and u = u, OF _ _ _ _ _ refl refl refl] that
    by blast
  ultimately show ?thesis
    unfolding Let_def by blast
qed

lemma world_hat_bag_reachable: "world_hat_bag = handleItemSelect ok_env bag_file bag world_hat"
  by (simp add: ex_defs run_defs)

theorem accessory_select_toggles_witness:
  "handleItemSelect ok_env hat_file hat world_hat =
     world_hat\<lparr>hist := \<lparr>history = [model_state, tee_state, hat_state, tee_state], currentIndex = 3\<rparr>\<rparr>
   \<and> state (hist (handleItemSelect ok_env hat_file hat world_hat_bag)) =
       Some (hat_state\<lparr>activeAccessories := [bag]\<rparr>)
   \<and> state (hist (handleItemSelect ok_env bag_file bag world_hat)) =
       Some (hat_state\<lparr>activeAccessories := [hat, bag]\<rparr>)
   \<and> wardrobe_click ok_env tee (None, world_hat) = (None, world_hat)"
proof -
  have enabled: "state (hist world_hat) = Some hat_state \<and> \<not> isLoading world_hat
      \<and> truthy (select_base (heap world_hat) hat_state)
      \<and> accessory_base (heap world_hat) hat_state None = Some ''data:model+tee''
      \<and> ''data:model+tee'' \<noteq> []"
    by (simp add: ex_defs run_defs)
  have enabled2: "state (hist world_hat_bag) = Some hat_bag_state \<and> \<not> isLoading world_hat_bag
      \<and> truthy (select_base (heap world_hat_bag) hat_bag_state)
      \<and> accessory_base (heap world_hat_bag) hat_bag_state None = Some ''data:model+tee''
      \<and> ''data:model+tee'' \<noteq> []"
    by (simp add: ex_defs run_defs)
  have kinds: "item_type hat = Accessory \<and> item_type bag = Accessory \<and> item_type tee = Garment"
    by (simp add: hat_def bag_def tee_def)
  have worn: "item_id tee \<in> set (activeItemIds (heap world_hat) hat_state)"
    by (simp add: ex_defs activeItemIds_def activeGarmentLayers_def layers_of_def slice0_def
        deref_def nth_opt_def)
  note off = accessory_select_toggles[where w = world_hat and s = hat_state and itemInfo = hat
      and b = "''data:model+tee''" and e = ok_env and itemFile = hat_file
      and garmentInfo = tee and panelError = None]
  note less = accessory_select_toggles[where w = world_hat_bag and s = hat_bag_state and itemInfo = hat
      and b = "''data:model+tee''" and e = ok_env and itemFile = hat_file
      and fs = "[File (item_name bag) (item_url bag)]" and u = "''data:model+tee+acc''",
      THEN conjunct1]
  note more = accessory_select_toggles[where w = world_hat and s = hat_state and itemInfo = bag
      and b = "''data:model+tee''" and e = ok_env and itemFile = bag_file
      and fs = "[File (item_name hat) (item_url hat), File (item_name bag) (item_url bag)]"
      and u = "''data:model+tee+acc''", THEN conjunct1]
  have "handleItemSelect ok_env hat_file hat world_hat =
     world_hat\<lparr>hist := \<lparr>history = [model_state, tee_state, hat_state, tee_state], currentIndex = 3\<rparr>\<rparr>"
    using off[THEN conjunct1] enabled kinds by (simp add: Let_def) (simp add: ex_defs pushed_def)
  moreover have "state (hist (handleItemSelect ok_env hat_file hat world_hat_bag)) =
       Some (hat_state\<lparr>activeAccessories := [bag]\<rparr>)"
    using less enabled2 kinds by (simp add: Let_def) (simp add: ex_defs)
  moreover have "state (hist (handleItemSelect ok_env bag_file bag world_hat)) =
       Some (hat_state\<lparr>activeAccessories := [hat, bag]\<rparr>)"
    using more enabled kinds by (simp add: Let_def) (simp add: ex_defs)
  moreover have "wardrobe_click ok_env tee (None, world_hat) = (None, world_hat)"
    using off[THEN conjunct2] enabled kinds worn by simp
  ultimately show ?thesis by simp
qed

section \<open>Failing generation calls\<close>

lemma garment_failure:
  assumes st: "state (hist w) = Some s"
    and a: "\<not> isLoading w \<and> truthy (select_base (heap w) s) \<and> item_type itemInfo = Garment
        \<and> \<not> is_next_layer (layer_at (heap w) (garmentHistory s) (currentGarmentIndex s + 1)) itemInfo
        \<and> generateGarmentTryOnImage e (select_base (heap w) s) itemFile = Inl err"
  shows "error_displayed_only w (handleItemSelect e itemFile itemInfo w)
           (getFriendlyErrorMessage e err ''Failed to apply item'')"
  using a
  by (simp add: handleItemSelect_def capture_Some[OF st] Let_def finally_clear_def
      error_displayed_only_def)

lemma pose_failure:
  assumes st: "state (hist w) = Some s"
    and a: "\<not> isLoading w \<and> garmentHistory s \<noteq> [] \<and> newIndex \<noteq> currentPoseIndex s
        \<and> layer_at (heap w) (garmentHistory s) (currentGarmentIndex s) = Some l
        \<and> \<not> truthy (get_prop (poseImages l) (pose_key newIndex))
        \<and> first_value (poseImages l) = Some b \<and> b \<noteq> []
        \<and> poseVariation e b (pose_key newIndex) = Inl err"
  shows "error_displayed_only w (handlePoseSelect e newIndex w)
           (getFriendlyErrorMessage e err ''Failed to change pose'')"
proof -
  from a obtain r where "nth_opt (garmentHistory s) (currentGarmentIndex s) = Some r"
    "deref (heap w) r = Some l"
    using layer_at_Some by blast
  with a show ?thesis
    by (simp add: handlePoseSelect_def capture_Some[OF st] Let_def finally_clear_def
        error_displayed_only_def)
qed

lemma accessory_failure:
  assumes a: "accessories \<noteq> [] \<and> accessory_base (heap w) (cState c) override = Some b \<and> b \<noteq> []
        \<and> (promise_all (\<lambda>acc. urlToFile e (item_url acc) (item_name acc)) accessories = Inl err
            \<or> promise_all (\<lambda>acc. urlToFile e (item_url acc) (item_name acc)) accessories = Inr fs
              \<and> accessoryTryOn e b fs accessories = Inl err)"
  shows "error_displayed_only w (updateAccessoryLayer e c accessories override w)
           (getFriendlyErrorMessage e err ''Failed to apply accessories'')"
  using a
  by (auto simp: updateAccessoryLayer_def Let_def finally_clear_def error_displayed_only_def)

lemma reorder_failure:
  assumes st: "state (hist w) = Some s"
    and a: "layer_at (heap w) (garmentHistory s) 0 = Some base
        \<and> map layer_id (base # reorderedItems) \<noteq> map layer_id (layers_of (heap w) (garmentHistory s))
        \<and> regenerate e (modelImageUrl s) reorderedItems (calls w) = (Inl err, cs)"
  shows "error_displayed_only w (handleReorderGarments e reorderedItems w)
           (getFriendlyErrorMessage e err ''Failed to reorder outfit. Reverting to previous order.'')"
proof -
  from a obtain r where "nth_opt (garmentHistory s) 0 = Some r" "deref (heap w) r = Some base"
    using layer_at_Some by blast
  with a show ?thesis
    by (simp add: handleReorderGarments_def capture_Some[OF st] Let_def finally_clear_def
        error_displayed_only_def)
qed

text \<open>
  C5. A failing generation call is caught and displayed, and nothing else happens. When the
  try-on call of \<open>handleItemSelect\<close>, the pose call of \<open>handlePoseSelect\<close>, the file
  loading or the overlay call of \<open>updateAccessoryLayer\<close> (from whichever handler it is
  called), or any step of the regeneration loop of \<open>handleReorderGarments\<close> throws, the
  error state holds the friendly message of the thrown error, the loading flag and message
  are cleared, and the history container and the layers it points to are what they were
  before the call.
\<close>

theorem generation_failure_displays_error_only:
  "(state (hist w) = Some s
      \<and> \<not> isLoading w \<and> truthy (select_base (heap w) s) \<and> item_type itemInfo = Garment
      \<and> \<not> is_next_layer (layer_at (heap w) (garmentHistory s) (currentGarmentIndex s + 1)) itemInfo
      \<and> generateGarmentTryOnImage e (select_base (heap w) s) itemFile = Inl err
    \<longrightarrow> error_displayed_only w (handleItemSelect e itemFile itemInfo w)
          (getFriendlyErrorMessage e err ''Failed to apply item''))
   \<and> (state (hist w) = Some s
      \<and> \<not> isLoading w \<and> garmentHistory s \<noteq> [] \<and> newIndex \<noteq> currentPoseIndex s
      \<and> layer_at (heap w) (garmentHistory s) (currentGarmentIndex s) = Some l
      \<and> \<not> truthy (get_prop (poseImages l) (pose_key newIndex))
      \<and> first_value (poseImages l) = Some b \<and> b \<noteq> []
      \<and> poseVariation e b (pose_key newIndex) = Inl err
    \<longrightarrow> error_displayed_only w (handlePoseSelect e newIndex w)
          (getFriendlyErrorMessage e err ''Failed to change pose''))
   \<and> (accessories \<noteq> [] \<and> accessory_base (heap w) (cState c) override = Some b \<and> b \<noteq> []
      \<and> (promise_all (\<lambda>acc. urlToFile e (item_url acc) (item_name acc)) accessories = Inl err
          \<or> promise_all (\<lambda>acc. urlToFile e (item_url acc) (item_name acc)) accessories = Inr fs
            \<and> accessoryTryOn e b fs accessories = Inl err)
    \<longrightarrow> error_displayed_only w (updateAccessoryLayer e c accessories override w)
          (getFriendlyErrorMessage e err ''Failed to apply accessories''))
   \<and> (state (hist w) = Some s
      \<and> layer_at (heap w) (garmentHistory s) 0 = Some base
      \<and> map layer_id (base # reorderedItems) \<noteq> map layer_id (layers_of (heap w) (garmentHistory s))
      \<and> regenerate e (modelImageUrl s) reorderedItems (calls w) = (Inl err, cs)
    \<longrightarrow> error_displayed_only w (handleReorderGarments e reorderedItems w)
          (getFriendlyErrorMessage e err ''Failed to reorder outfit. Reverting to previous order.''))"
  using garment_failure[of w s itemInfo e itemFile err] pose_failure[of w s newIndex l b e err]
    accessory_failure[of accessories w c override b e err fs]
    reorder_failure[of w s base reorderedItems e err cs]
  by blast

theorem generation_failure_displays_error_only_witness:
  "handleItemSelect failing_env blazer_file blazer world_tee =
     world_tee\<lparr>error := Some ''Failed to apply item: quota'',
               calls := calls world_tee @ [TryOnCall (Some ''data:model+tee'') blazer_file]\<rparr>
   \<and> hist (handlePoseSelect failing_env 1 world_tee) = hist world_tee
   \<and> error (handlePoseSelect failing_env 1 world_tee) = Some ''Failed to change pose: quota''
   \<and> hist (handleItemSelect failing_env hat_file hat world_tee) = hist world_tee
   \<and> error (handleItemSelect failing_env hat_file hat world_tee) = Some ''Failed to apply accessories: quota''
   \<and> hist (handleReorderGarments failing_env [blazer_layer, tee_layer] world_two) = hist world_two
   \<and> error (handleReorderGarments failing_env [blazer_layer, tee_layer] world_two) =
       Some ''Failed to reorder outfit. Reverting to previous order.: quota''"
proof -
  have garment: "state (hist world_tee) = Some tee_state
      \<and> \<not> isLoading world_tee \<and> truthy (select_base (heap world_tee) tee_state)
      \<and> item_type blazer = Garment
      \<and> \<not> is_next_layer (layer_at (heap world_tee) (garmentHistory tee_state)
             (currentGarmentIndex tee_state + 1)) blazer
      \<and> generateGarmentTryOnImage failing_env (select_base (heap world_tee) tee_state) blazer_file
          = Inl (Error ''quota'')"
    by (simp add: ex_defs run_defs)
  have pose: "state (hist world_tee) = Some tee_state
      \<and> \<not> isLoading world_tee \<and> garmentHistory tee_state \<noteq> [] \<and> 1 \<noteq> currentPoseIndex tee_state
      \<and> layer_at (heap world_tee) (garmentHistory tee_state) (currentGarmentIndex tee_state) = Some tee_layer
      \<and> \<not> truthy (get_prop (poseImages tee_layer) (pose_key 1))
      \<and> first_value (poseImages tee_layer) = Some ''data:model+tee'' \<and> ''data:model+tee'' \<noteq> []
      \<and> poseVariation failing_env ''data:model+tee'' (pose_key 1) = Inl (Error ''quota'')"
    by (simp add: ex_defs run_defs)
  have accessory: "[hat] \<noteq> []
      \<and> accessory_base (heap world_tee) tee_state None = Some ''data:model+tee'' \<and> ''data:model+tee'' \<noteq> []
      \<and> (promise_all (\<lambda>acc. urlToFile failing_env (item_url acc) (item_name acc)) [hat] = Inl (Error ''quota'')
          \<or> promise_all (\<lambda>acc. urlToFile failing_env (item_url acc) (item_name acc)) [hat]
               = Inr [File (item_name hat) (item_url hat)]
            \<and> accessoryTryOn failing_env ''data:model+tee'' [File (item_name hat) (item_url hat)] [hat]
               = Inl (Error ''quota''))"
    by (simp add: ex_defs run_defs)
  have reorder: "state (hist world_two) = Some two_state
      \<and> layer_at (heap world_two) (garmentHistory two_state) 0 = Some base_layer
      \<and> map layer_id (base_layer # [blazer_layer, tee_layer])
          \<noteq> map layer_id (layers_of (heap world_two) (garmentHistory two_state))
      \<and> regenerate failing_env (modelImageUrl two_state) [blazer_layer, tee_layer] (calls world_two)
          = (Inl (Error ''quota''),
             calls world_two @ [TryOnCall (Some ''data:model'') (File (item_name blazer) (item_url blazer))])"
    by (simp add: ex_defs run_defs)
  have run: "handleItemSelect failing_env hat_file hat world_tee =
      updateAccessoryLayer failing_env
        \<lparr>cHistory = history (hist world_tee), cIndex = currentIndex (hist world_tee), cState = tee_state\<rparr>
        [hat] None world_tee"
    by (simp add: ex_defs run_defs)
  note inst = generation_failure_displays_error_only[where e = failing_env and err = "Error ''quota''"]
  from garment have f1: "error_displayed_only world_tee (handleItemSelect failing_env blazer_file blazer world_tee)
          (getFriendlyErrorMessage failing_env (Error ''quota'') ''Failed to apply item'')"
    using inst[where w = world_tee and s = tee_state and itemInfo = blazer and itemFile = blazer_file,
        THEN conjunct1] by blast
  from pose have f2: "error_displayed_only world_tee (handlePoseSelect failing_env 1 world_tee)
          (getFriendlyErrorMessage failing_env (Error ''quota'') ''Failed to change pose'')"
    using inst[where w = world_tee and s = tee_state and newIndex = 1 and l = tee_layer
        and b = "''data:model+tee''", THEN conjunct2, THEN conjunct1] by blast
  from accessory have f3: "error_displayed_only world_tee
          (updateAccessoryLayer failing_env
             \<lparr>cHistory = history (hist world_tee), cIndex = currentIndex (hist world_tee), cState = tee_state\<rparr>
             [hat] None world_tee)
          (getFriendlyErrorMessage failing_env (Error ''quota'') ''Failed to apply accessories'')"
    using inst[where w = world_tee and accessories = "[hat]" and override = None
        and c = "\<lparr>cHistory = history (hist world_tee), cIndex = currentIndex (hist world_tee), cState = tee_state\<rparr>"
        and b = "''data:model+tee''" and fs = "[File (item_name hat) (item_url hat)]",
        THEN conjunct2, THEN conjunct2, THEN conjunct1] by simp
  from reorder have f4: "error_displayed_only world_two
          (handleReorderGarments failing_env [blazer_layer, tee_layer] world_two)
          (getFriendlyErrorMessage failing_env (Error ''quota'')
             ''Failed to reorder outfit. Reverting to previous order.'')"
    using inst[where w = world_two and s = two_state and base = base_layer
        and reorderedItems = "[blazer_layer, tee_layer]"
        and cs = "calls world_two @ [TryOnCall (Some ''data:model'') (File (item_name blazer) (item_url blazer))]",
        THEN conjunct2, THEN conjunct2, THEN conjunct2] by blast
  have "handleItemSelect failing_env blazer_file blazer world_tee =
     world_tee\<lparr>error := Some ''Failed to apply item: quota'',
               calls := calls world_tee @ [TryOnCall (Some ''data:model+tee'') blazer_file]\<rparr>"
    by (simp add: ex_defs run_defs)
  moreover have "getFriendlyErrorMessage failing_env (Error ''quota'') ctx = ctx @ '': quota''"
    for ctx
    by (simp add: failing_env_def friendly_def)
  ultimately show ?thesis
    using f1 f2 f3 f4 by (simp add: error_displayed_only_def run)
qed

section \<open>Selecting a pose\<close>

lemma pose_select_noop:
  assumes "state (hist w) = Some s"
    and "isLoading w \<or> newIndex = currentPoseIndex s"
  shows "handlePoseSelect e newIndex w = w"
  using assms(2) by (auto simp: handlePoseSelect_def capture_Some[OF assms(1)] Let_def)

lemma pose_select_cached:
  assumes st: "state (hist w) = Some s"
    and idle: "\<not> isLoading w"
    and other: "newIndex \<noteq> currentPoseIndex s"
    and layer: "layer_at (heap w) (garmentHistory s) (currentGarmentIndex s) = Some l"
    and cached: "truthy (get_prop (poseImages l) (pose_key newIndex))"
    and bare: "activeAccessories s = []"
  shows "handlePoseSelect e newIndex w = w\<lparr>hist := pushed (hist w) (s\<lparr>currentPoseIndex := newIndex\<rparr>)\<rparr>"
proof -
  from layer obtain r where r: "nth_opt (garmentHistory s) (currentGarmentIndex s) = Some r"
    "deref (heap w) r = Some l"
    using layer_at_Some by blast
  then have ne: "garmentHistory s \<noteq> []"
    by (auto simp: nth_opt_def split: if_splits)
  have neq: "\<not> json_eq (heap w) (s\<lparr>currentPoseIndex := newIndex\<rparr>) s"
    using other by (simp add: json_eq_def json_state_def)
  show ?thesis
    using idle other r ne cached bare
      setState_pushed[where h = "hist w" and s = s and f = "\<lambda>prev. prev\<lparr>currentPoseIndex := newIndex\<rparr>"
        and jeq = "json_eq (heap w)" and cur = "hist w", OF st neq]
    by (simp add: handlePoseSelect_def capture_Some[OF st] Let_def)
qed

lemma pose_select_generated:
  assumes st: "state (hist w) = Some s"
    and idle: "\<not> isLoading w"
    and other: "newIndex \<noteq> currentPoseIndex s"
    and r: "nth_opt (garmentHistory s) (currentGarmentIndex s) = Some r"
    and l: "deref (heap w) r = Some l"
    and fresh: "\<not> truthy (get_prop (poseImages l) (pose_key newIndex))"
    and first: "first_value (poseImages l) = Some b \<and> b \<noteq> []"
    and gen: "poseVariation e b (pose_key newIndex) = Inr u"
    and bare: "activeAccessories s = []"
  shows "handlePoseSelect e newIndex w =
           w\<lparr>error := None, isLoading := False, loadingMessage := [],
             calls := calls w @ [PoseCall b (pose_key newIndex)],
             heap := (heap w)[r := l\<lparr>poseImages := set_prop (poseImages l) (pose_key newIndex) (Some u)\<rparr>],
             hist := pushed (hist w) (s\<lparr>currentPoseIndex := newIndex\<rparr>)\<rparr>"
proof -
  let ?hp = "(heap w)[r := l\<lparr>poseImages := set_prop (poseImages l) (pose_key newIndex) (Some u)\<rparr>]"
  let ?f = "\<lambda>prev. prev\<lparr>garmentHistory := garmentHistory s, currentPoseIndex := newIndex\<rparr>"
  from r have ne: "garmentHistory s \<noteq> []"
    by (auto simp: nth_opt_def split: if_splits)
  have neq: "\<not> json_eq ?hp (?f s) s"
    using other by (simp add: json_eq_def json_state_def)
  have fs: "?f s = s\<lparr>currentPoseIndex := newIndex\<rparr>"
    by simp
  show ?thesis
    using idle other r l ne fresh first gen bare
      setState_pushed[where h = "hist w" and s = s and f = ?f
        and jeq = "json_eq ?hp" and cur = "hist w", OF st neq]
    by (simp add: handlePoseSelect_def capture_Some[OF st] Let_def finally_clear_def fs)
qed

lemma pose_select_without_accessories:
  "state (hist (handlePoseSelect ok_env 1 world_tee)) = Some (tee_state\<lparr>currentPoseIndex := 1\<rparr>)
   \<and> heap (handlePoseSelect ok_env 1 world_tee) =
       [base_layer,
        tee_layer\<lparr>poseImages := [(pose_key 0, Some ''data:model+tee''),
                                 (pose_key 1, Some ''data:model+tee+pose'')]\<rparr>]"
  by (simp add: ex_defs run_defs)

lemma accessory_write_is_stale:
  assumes st: "state h0 = Some s"
    and ab: "accessory_base (heap w) s override = Some b \<and> b \<noteq> []"
    and ne: "accs \<noteq> []"
    and files: "promise_all (\<lambda>acc. urlToFile e (item_url acc) (item_name acc)) accs = Inr fs"
    and gen: "accessoryTryOn e b fs accs = Inr u"
    and changed: "accs \<noteq> activeAccessories s \<or> generatedAccessoryImageUrl s \<noteq> Some u"
  shows "updateAccessoryLayer e \<lparr>cHistory = history h0, cIndex = currentIndex h0, cState = s\<rparr>
           accs override w =
         w\<lparr>isLoading := False, loadingMessage := [], error := None,
           calls := calls w @ [AccessoryCall b fs accs],
           hist := pushed h0 (s\<lparr>generatedAccessoryImageUrl := Some u, activeAccessories := accs\<rparr>)\<rparr>"
proof -
  let ?f = "\<lambda>prev. prev\<lparr>generatedAccessoryImageUrl := Some u, activeAccessories := accs\<rparr>"
  from changed have neq: "\<not> json_eq (heap w) (?f s) s"
    by (auto simp: json_eq_def json_state_def)
  show ?thesis
    using ab ne files gen setState_pushed[where h = h0 and s = s and f = ?f
        and jeq = "json_eq (heap w)" and cur = "hist w", OF st neq]
    by (simp add: updateAccessoryLayer_def Let_def finally_clear_def)
qed

lemma pose_select_cached_with_accessories:
  assumes st: "state (hist w) = Some s"
    and idle: "\<not> isLoading w"
    and other: "newIndex \<noteq> currentPoseIndex s"
    and layer: "layer_at (heap w) (garmentHistory s) (currentGarmentIndex s) = Some l"
    and cached: "get_prop (poseImages l) (pose_key newIndex) = Some img \<and> img \<noteq> []"
    and worn: "activeAccessories s \<noteq> []"
    and files: "promise_all (\<lambda>acc. urlToFile e (item_url acc) (item_name acc)) (activeAccessories s) = Inr fs"
    and gen: "accessoryTryOn e img fs (activeAccessories s) = Inr u"
    and changed: "generatedAccessoryImageUrl s \<noteq> Some u"
  shows "state (hist (handlePoseSelect e newIndex w)) = Some (s\<lparr>generatedAccessoryImageUrl := Some u\<rparr>)"
proof -
  let ?c = "\<lparr>cHistory = history (hist w), cIndex = currentIndex (hist w), cState = s\<rparr>"
  let ?w1 = "w\<lparr>hist := setState (json_eq (heap w)) ?c (\<lambda>prev. prev\<lparr>currentPoseIndex := newIndex\<rparr>) (hist w)\<rparr>"
  from layer obtain r where r: "nth_opt (garmentHistory s) (currentGarmentIndex s) = Some r"
    "deref (heap w) r = Some l"
    using layer_at_Some by blast
  then have ne: "garmentHistory s \<noteq> []"
    by (auto simp: nth_opt_def split: if_splits)
  have run: "handlePoseSelect e newIndex w = updateAccessoryLayer e ?c (activeAccessories s) (Some img) ?w1"
    using idle other r ne cached worn
    by (simp add: handlePoseSelect_def capture_Some[OF st] Let_def truthy_def)
  have ab: "accessory_base (heap ?w1) s (Some img) = Some img \<and> img \<noteq> []"
    using cached by (simp add: accessory_base_def nullish_or_def)
  have "hist (updateAccessoryLayer e ?c (activeAccessories s) (Some img) ?w1)
          = pushed (hist w) (s\<lparr>generatedAccessoryImageUrl := Some u, activeAccessories := activeAccessories s\<rparr>)"
    using accessory_write_is_stale[OF st ab worn files gen] changed by simp
  then show ?thesis
    using state_pushed_current[OF st] by (simp add: run)
qed

text \<open>
  C4 (evaluation at the failing input). The tee is on, the hat is active and pose 0 is
  shown; the user selects pose 1, which the layer does not hold yet, and both generation
  calls succeed. The pose image is generated from the layer's first pose image and stored
  in the layer under the new pose instruction, and \<open>setState\<close> is called with
  \<open>currentPoseIndex: 1\<close>. Then \<open>updateAccessoryLayer\<close> calls the same \<open>setState\<close> closure:
  it computes its state from the state of before the selection and writes the history of
  before the selection with that state behind it. In the end \<open>currentPoseIndex\<close> is still
  0. (Lemma \<open>pose_select_cached_with_accessories\<close> is the same for a pose that is cached.)
\<close>

theorem pose_select_with_accessories_keeps_old_pose:
  "state (hist (handlePoseSelect ok_env 1 world_hat)) =
     Some (hat_state\<lparr>generatedAccessoryImageUrl := Some ''data:model+tee+pose+acc''\<rparr>)
   \<and> currentPoseIndex (hat_state\<lparr>generatedAccessoryImageUrl := Some ''data:model+tee+pose+acc''\<rparr>) = 0
   \<and> heap (handlePoseSelect ok_env 1 world_hat) =
       [base_layer,
        tee_layer\<lparr>poseImages := [(pose_key 0, Some ''data:model+tee''),
                                 (pose_key 1, Some ''data:model+tee+pose'')]\<rparr>]
   \<and> calls (handlePoseSelect ok_env 1 world_hat) =
       calls world_hat
       @ [PoseCall ''data:model+tee'' (pose_key 1),
          AccessoryCall ''data:model+tee+pose'' [File (item_name hat) (item_url hat)] [hat]]"
  by (simp add: ex_defs run_defs)

section \<open>Saving and loading an outfit\<close>

lemma save_refused:
  assumes "state (hist w) = Some s"
    and "currentGarmentIndex s = 0 \<and> activeAccessories s = []"
  shows "handleSaveOutfit stamp localeString w =
           w\<lparr>error := Some ''Add at least one item to save an outfit.''\<rparr>"
  using assms(2)
  by (simp add: handleSaveOutfit_def capture_Some[OF assms(1)] Let_def split: option.splits)

lemma save_records:
  assumes st: "state (hist w) = Some s"
    and model: "modelImageUrl s = Some m \<and> m \<noteq> []"
    and display: "displayImageUrl (heap w) s = Some d \<and> d \<noteq> []"
    and some: "currentGarmentIndex s \<noteq> 0 \<or> activeAccessories s \<noteq> []"
  shows "handleSaveOutfit stamp localeString w =
           w\<lparr>savedOutfits :=
               \<lparr>outfit_id = ''outfit-'' @ stamp, outfit_name = ''Outfit - '' @ localeString,
                thumbnailUrl = d, outfit_modelImageUrl = m,
                outfit_garmentHistory =
                  map (\<lambda>layer. \<lparr>saved_item = item layer, imageUrl = first_value (poseImages layer)\<rparr>)
                    (activeGarmentLayers (heap w) s),
                outfit_activeAccessories = activeAccessories s,
                outfit_wardrobe = wardrobe w\<rparr> # savedOutfits w\<rparr>"
  using model display some
  by (auto simp: handleSaveOutfit_def capture_Some[OF st] Let_def)

lemma load_without_accessories:
  "state (hist (handleLoadOutfit ok_env ''outfit-1'' world_saved)) =
     Some (tee_state\<lparr>garmentHistory := [2, 3]\<rparr>)
   \<and> hist (handleLoadOutfit ok_env ''outfit-1'' world_saved) = reset (tee_state\<lparr>garmentHistory := [2, 3]\<rparr>)
   \<and> layers_of (heap (handleLoadOutfit ok_env ''outfit-1'' world_saved)) [2, 3] = [base_layer, tee_layer]"
  by (simp add: ex_defs run_defs)

lemma world_saved_two_hat_reachable:
  "world_saved_two_hat =
     handleItemSelect ok_env hat_file hat (handleItemSelect ok_env blazer_file blazer world_saved)"
  by (simp add: ex_defs run_defs defaultWardrobe_def)

text \<open>
  C6 (evaluation at the failing input). The outfit with the tee was saved; then the blazer
  and the hat were added; now the saved outfit is loaded. \<open>handleLoadOutfit\<close> calls \<open>reset\<close>
  with the saved composition, and then, the outfit having no accessories, the \<open>setState\<close>
  closure of the click's render with \<open>generatedAccessoryImageUrl: null\<close>. That state is
  computed from the state of before the load and written behind the history of before the
  load, over what \<open>reset\<close> wrote: the current state still has the blazer and the hat, not
  the saved garments and accessories.
\<close>

theorem load_after_changes_keeps_current_outfit:
  "state (hist (handleLoadOutfit ok_env ''outfit-1'' world_saved_two_hat)) =
     Some (two_hat_state\<lparr>generatedAccessoryImageUrl := None\<rparr>)
   \<and> activeAccessories (two_hat_state\<lparr>generatedAccessoryImageUrl := None\<rparr>) = [hat]
   \<and> outfit_activeAccessories tee_outfit = []
   \<and> map item (layers_of (heap (handleLoadOutfit ok_env ''outfit-1'' world_saved_two_hat))
                  (garmentHistory (two_hat_state\<lparr>generatedAccessoryImageUrl := None\<rparr>)))
       = [None, Some tee, Some blazer]
   \<and> map saved_item (outfit_garmentHistory tee_outfit) = [None, Some tee]
   \<and> calls (handleLoadOutfit ok_env ''outfit-1'' world_saved_two_hat) = calls world_saved_two_hat"
  by (simp add: ex_defs run_defs)

section \<open>Reordering the garments\<close>

lemma reorder_same_ids_noop:
  assumes st: "state (hist w) = Some s"
    and base: "layer_at (heap w) (garmentHistory s) 0 = Some base"
    and same: "map layer_id (base # reorderedItems) = map layer_id (layers_of (heap w) (garmentHistory s))"
  shows "handleReorderGarments e reorderedItems w = w"
proof -
  from base obtain r where "nth_opt (garmentHistory s) 0 = Some r" "deref (heap w) r = Some base"
    using layer_at_Some by blast
  with same show ?thesis
    by (simp add: handleReorderGarments_def capture_Some[OF st] Let_def)
qed

lemma regenerate_chain:
  "regenerate e img ls cs = (Inr (new, final), cs') \<Longrightarrow>
   map item new = map item ls
   \<and> (\<forall>l \<in> set new. \<exists>u. poseImages l = [(pose_key 0, Some u)])
   \<and> final = (if new = [] then img else first_value (poseImages (last new)))"
proof (induction ls arbitrary: img cs new)
  case Nil
  then show ?case by simp
next
  case (Cons l ls)
  from Cons.prems obtain itemInfo itemFile u new' where
    l: "item l = Some itemInfo"
    and f: "urlToFile e (item_url itemInfo) (item_name itemInfo) = Inr itemFile"
    and g: "generateGarmentTryOnImage e img itemFile = Inr u"
    and rest: "regenerate e (Some u) ls (cs @ [TryOnCall img itemFile]) = (Inr (new', final), cs')"
    and new: "new = \<lparr>item = Some itemInfo, poseImages = [(pose_key 0, Some u)]\<rparr> # new'"
    by (auto split: option.splits sum.splits prod.splits)
  from Cons.IH[OF rest] show ?case
    by (auto simp: new l first_value_def)
qed

lemma reorder_without_accessories:
  "state (hist (handleReorderGarments ok_env [blazer_layer, tee_layer] world_two)) =
     Some (two_state\<lparr>garmentHistory := [0, 3, 4]\<rparr>)
   \<and> layers_of (heap (handleReorderGarments ok_env [blazer_layer, tee_layer] world_two)) [0, 3, 4] =
       [base_layer,
        \<lparr>item = Some blazer, poseImages = [(pose_key 0, Some ''data:model+Blazer Jacket'')]\<rparr>,
        \<lparr>item = Some tee, poseImages = [(pose_key 0, Some ''data:model+Blazer Jacket+Gemini Tee'')]\<rparr>]"
  by (simp add: ex_defs run_defs)

text \<open>
  C8 (evaluation at the failing input). The tee and the blazer are on and the hat is
  active; the garments are reordered to blazer, tee, and all generation calls succeed. The
  layers are regenerated in the new order from the model image, each call on the image of
  the call before, and \<open>setState\<close> is called with the regenerated layers. Then
  \<open>updateAccessoryLayer\<close> calls the same \<open>setState\<close> closure, which writes the state of
  before the reordering with the new accessory image: the garment history is still tee,
  blazer.
\<close>

theorem reorder_with_accessories_keeps_old_order:
  "state (hist (handleReorderGarments ok_env [blazer_layer, tee_layer] world_two_hat)) =
     Some (two_hat_state\<lparr>generatedAccessoryImageUrl := Some ''data:model+Blazer Jacket+Gemini Tee+acc''\<rparr>)
   \<and> map item (layers_of (heap (handleReorderGarments ok_env [blazer_layer, tee_layer] world_two_hat))
                  (garmentHistory two_hat_state))
       = [None, Some tee, Some blazer]
   \<and> calls (handleReorderGarments ok_env [blazer_layer, tee_layer] world_two_hat) =
       calls world_two_hat
       @ [TryOnCall (Some ''data:model'') (File (item_name blazer) (item_url blazer)),
          TryOnCall (Some ''data:model+Blazer Jacket'') (File (item_name tee) (item_url tee)),
          AccessoryCall ''data:model+Blazer Jacket+Gemini Tee'' [File (item_name hat) (item_url hat)] [hat]]"
  by (simp add: ex_defs run_defs)

end
